theory Spec2Isabelle
  imports Main "HOL-Library.Sublist"
begin

section \<open>Block Monitor (block-monitor service)\<close>

text \<open>
  Conventions of the embedding.
  \<^item> A JavaScript \<open>Date\<close> is its time value, an \<open>int\<close> of milliseconds since the epoch;
    an ISO-8601 rendering of a date is kept as that time value. A date is valid when its
    time value lies within 8.64e15 ms of the epoch; \<open>toISOString\<close> of an invalid date
    throws a RangeError.
  \<^item> JavaScript numbers that hold integers are \<open>int\<close> or \<open>nat\<close>; a \<open>bigint\<close> read from
    the chain (u64 seconds) is a \<open>nat\<close>, the farm index (u32) is a \<open>nat\<close>.
  \<^item> An exception is the \<open>Inl\<close> of a sum, or the third component of a result triple.
  \<^item> The chain RPC, the clock and the Backend are the environment of one poll (\<open>PollEnv\<close>);
    every chain read and every POST the code performs is an event of the returned trace.
  \<^item> The constant configuration strings (pooler id, URLs) are left out of the records.
\<close>

record KaleBlock =
  timestamp :: "nat option"
  min_gap :: nat
  min_stake :: nat
  min_zeros :: nat
  max_gap :: nat
  max_stake :: nat
  max_zeros :: nat
  entropy :: "string option"

record ContractData =
  index :: nat
  block :: "KaleBlock option"

record PoolerState =
  currentBlockIndex :: nat
  lastBlockTimestamp :: "int option"
  isMonitoring :: bool
  consecutiveMissedBlocks :: nat
  totalBlocksDiscovered :: nat
  startTime :: int
  lastNotificationSent :: "int option"
  errorCount :: nat
  maxErrorCount :: nat

text \<open>The monitor object: its \<open>state\<close> fields, the interval timer (\<open>True\<close> when an
  interval handle is held) and the shutdown flag.\<close>

record BlockMonitor = PoolerState +
  monitoringInterval :: bool
  isShuttingDown :: bool

record BlockDiscoveryEvent =
  previousIndex :: nat
  newIndex :: nat
  ev_block :: "KaleBlock option"
  ev_entropy :: string
  ev_timestamp :: int
  blockAge :: int

text \<open>The body of the block-discovered POST (\<open>blockData\<close> and \<open>metadata\<close> flattened).\<close>

record BackendNotification =
  blockIndex :: nat
  bd_index :: nat
  bd_timestamp :: int
  bd_entropy :: string
  bd_blockAge :: int
  plantable :: bool
  bd_min_stake :: nat
  bd_max_stake :: nat
  bd_min_zeros :: nat
  bd_max_zeros :: nat
  bd_min_gap :: nat
  bd_max_gap :: nat
  discoveredAt :: int
  poolerUptime :: int
  md_totalBlocksDiscovered :: nat

datatype http_reply = Replied bool | FetchFailed string

text \<open>What one poll meets: the result of the farm-index read and of the block read
  (\<open>Inl\<close> a transport or decode error), the clock at its three reads, and the Backend's
  answer to the POST: \<open>Replied ok\<close> carries \<open>response.ok\<close> of a response whose body
  could be read, \<open>FetchFailed\<close> is a fetch (or a reading of the body) that threw.\<close>

record PollEnv =
  indexRead :: "string + nat"
  blockRead :: "string + KaleBlock"
  now :: int
  nowNotify :: int
  nowAck :: int
  postReply :: http_reply

datatype event =
    ChainReadIndex
  | ChainReadBlock nat
  | Posted BackendNotification

subsection \<open>Chain reads\<close>

definition getIndex :: "PollEnv \<Rightarrow> (string + nat) \<times> event list" where
  "getIndex env = (indexRead env, [ChainReadIndex])"

text \<open>\<open>getBlock\<close> catches every error of its read and returns \<open>undefined\<close>.\<close>

definition getBlock :: "PollEnv \<Rightarrow> nat \<Rightarrow> KaleBlock option \<times> event list" where
  "getBlock env i =
     (case blockRead env of
        Inl e \<Rightarrow> (None, [ChainReadBlock i])
      | Inr b \<Rightarrow> (Some b, [ChainReadBlock i]))"

text \<open>\<open>getContractData\<close> starts from \<open>index = 0\<close> and no block, and catches every error
  ("log but don't throw - allow partial data").\<close>

definition getContractData :: "PollEnv \<Rightarrow> ContractData \<times> event list" where
  "getContractData env =
     (case getIndex env of
        (Inl e, evs) \<Rightarrow> (\<lparr>index = 0, block = None\<rparr>, evs)
      | (Inr i, evs) \<Rightarrow>
          if i > 0
          then (case getBlock env i of (b, evs') \<Rightarrow> (\<lparr>index = i, block = b\<rparr>, evs @ evs'))
          else (\<lparr>index = i, block = None\<rparr>, evs))"

subsection \<open>Timing predictions\<close>

definition validDate :: "int \<Rightarrow> bool" where
  "validDate t = (\<bar>t\<bar> \<le> 8640000000000000)"

record TimingPredictions =
  currentTime :: int
  blockDiscoveredTime :: int
  plantingTime :: int
  workTime :: int
  harvestTime :: int

text \<open>\<open>calculateTimingPredictions\<close> renders five dates with \<open>toISOString\<close>; the call throws
  when one of the dates derived from the block timestamp is invalid. The current time is a
  reading of the clock and always a valid date.\<close>

definition calculateTimingPredictions ::
  "int \<Rightarrow> int \<Rightarrow> int \<Rightarrow> int \<Rightarrow> int \<Rightarrow> string + TimingPredictions" where
  "calculateTimingPredictions current blockTimestamp plantingDelaySeconds workDelaySeconds
       harvestDelaySeconds =
     (let blockTimeMs = blockTimestamp * 1000;
          planting = blockTimeMs + plantingDelaySeconds * 1000;
          work = planting + workDelaySeconds * 1000;
          harvest = work + harvestDelaySeconds * 1000
      in if validDate blockTimeMs \<and> validDate planting \<and> validDate work \<and> validDate harvest
         then Inr \<lparr>currentTime = current, blockDiscoveredTime = blockTimeMs,
                   plantingTime = planting, workTime = work, harvestTime = harvest\<rparr>
         else Inl ''RangeError: Invalid time value'')"

subsection \<open>Notification of the Backend\<close>

text \<open>A block timestamp is used when it is present and truthy (a \<open>0n\<close> is falsy).\<close>

definition truthyTimestamp :: "KaleBlock option \<Rightarrow> nat option" where
  "truthyTimestamp b =
     (case b of
        None \<Rightarrow> None
      | Some k \<Rightarrow> (case timestamp k of
                     None \<Rightarrow> None
                   | Some t \<Rightarrow> if t = 0 then None else Some t))"

definition zeroEntropy :: string where
  "zeroEntropy = replicate 64 (CHR ''0'')"

definition entropyHex :: "KaleBlock option \<Rightarrow> string" where
  "entropyHex b =
     (case b of
        None \<Rightarrow> zeroEntropy
      | Some k \<Rightarrow> (case entropy k of
                     None \<Rightarrow> zeroEntropy
                   | Some h \<Rightarrow> if h = [] then zeroEntropy else h))"

definition isPlantable :: "int \<Rightarrow> bool" where
  "isPlantable age = (age \<ge> 30 \<and> age < 240)"

definition buildNotification :: "BlockMonitor \<Rightarrow> BlockDiscoveryEvent \<Rightarrow> PollEnv \<Rightarrow> BackendNotification" where
  "buildNotification m ev env =
     \<lparr>blockIndex = newIndex ev,
      bd_index = newIndex ev,
      bd_timestamp = ev_timestamp ev,
      bd_entropy = ev_entropy ev,
      bd_blockAge = blockAge ev,
      plantable = isPlantable (blockAge ev),
      bd_min_stake = (case ev_block ev of None \<Rightarrow> 0 | Some k \<Rightarrow> min_stake k),
      bd_max_stake = (case ev_block ev of None \<Rightarrow> 0 | Some k \<Rightarrow> max_stake k),
      bd_min_zeros = (case ev_block ev of None \<Rightarrow> 0 | Some k \<Rightarrow> min_zeros k),
      bd_max_zeros = (case ev_block ev of None \<Rightarrow> 0 | Some k \<Rightarrow> max_zeros k),
      bd_min_gap = (case ev_block ev of None \<Rightarrow> 0 | Some k \<Rightarrow> min_gap k),
      bd_max_gap = (case ev_block ev of None \<Rightarrow> 0 | Some k \<Rightarrow> max_gap k),
      discoveredAt = ev_timestamp ev,
      poolerUptime = nowNotify env - startTime m,
      md_totalBlocksDiscovered = totalBlocksDiscovered m\<rparr>"

text \<open>\<open>notifyBackend\<close> sends the POST and catches every failure: a reply that is not ok and
  a failed fetch are logged, nothing is thrown and the monitor state is left as it is.\<close>

definition notifyBackend ::
  "BlockMonitor \<Rightarrow> BlockDiscoveryEvent \<Rightarrow> PollEnv \<Rightarrow> BlockMonitor \<times> event list" where
  "notifyBackend m ev env =
     (let notification = buildNotification m ev env
      in case postReply env of
           Replied ok \<Rightarrow>
             if ok then (m\<lparr>lastNotificationSent := Some (nowAck env)\<rparr>, [Posted notification])
             else (m, [Posted notification])
         | FetchFailed e \<Rightarrow> (m, [Posted notification]))"

subsection \<open>The poll\<close>

text \<open>\<open>handleNewBlockDiscovered\<close> returns the monitor, the events and the exception that
  escaped it, if any. The timing predictions are computed before the state is touched.\<close>

definition handleNewBlockDiscovered ::
  "BlockMonitor \<Rightarrow> ContractData \<Rightarrow> PollEnv \<Rightarrow> BlockMonitor \<times> event list \<times> string option" where
  "handleNewBlockDiscovered m contractData env =
     (let previous = currentBlockIndex m;
          new = index contractData;
          blockTimestamp = (case truthyTimestamp (block contractData) of
                              Some t \<Rightarrow> int t * 1000
                            | None \<Rightarrow> now env);
          age = (now env - blockTimestamp) div 1000;
          entropyStr = entropyHex (block contractData)
      in case calculateTimingPredictions (now env)
                (case truthyTimestamp (block contractData) of
                   Some t \<Rightarrow> int t
                 | None \<Rightarrow> now env div 1000) 30 150 30 of
           Inl e \<Rightarrow> (m, [], Some e)
         | Inr predictions \<Rightarrow>
             (let m1 = m\<lparr>currentBlockIndex := new,
                         lastBlockTimestamp := Some blockTimestamp,
                         totalBlocksDiscovered := totalBlocksDiscovered m + 1,
                         consecutiveMissedBlocks := 0\<rparr>;
                  blockEvent = \<lparr>previousIndex = previous, newIndex = new,
                                ev_block = block contractData, ev_entropy = entropyStr,
                                ev_timestamp = now env, blockAge = age\<rparr>
              in case notifyBackend m1 blockEvent env of
                   (m2, evs) \<Rightarrow> (m2, evs, None)))"

definition stopMonitoring :: "BlockMonitor \<Rightarrow> BlockMonitor" where
  "stopMonitoring m =
     (if \<not> isMonitoring m then m
      else m\<lparr>isShuttingDown := True, monitoringInterval := False, isMonitoring := False\<rparr>)"

definition handleMonitoringError :: "BlockMonitor \<Rightarrow> BlockMonitor" where
  "handleMonitoringError m =
     (let m1 = m\<lparr>errorCount := errorCount m + 1\<rparr>
      in if errorCount m1 \<ge> maxErrorCount m1 then stopMonitoring m1 else m1)"

definition resetErrorCount :: "BlockMonitor \<Rightarrow> BlockMonitor" where
  "resetErrorCount m = (if errorCount m > 0 then m\<lparr>errorCount := 0\<rparr> else m)"

definition checkForNewBlocks :: "BlockMonitor \<Rightarrow> PollEnv \<Rightarrow> BlockMonitor \<times> event list" where
  "checkForNewBlocks m env =
     (if isShuttingDown m then (m, [])
      else case getContractData env of
        (contractData, reads) \<Rightarrow>
          if index contractData > currentBlockIndex m
          then (case handleNewBlockDiscovered m contractData env of
                  (m1, evs, Some e) \<Rightarrow> (handleMonitoringError m1, reads @ evs)
                | (m1, evs, None) \<Rightarrow> (resetErrorCount m1, reads @ evs))
          else if index contractData < currentBlockIndex m
          then (resetErrorCount (m\<lparr>currentBlockIndex := index contractData\<rparr>), reads)
          else (resetErrorCount m, reads))"

text \<open>\<open>startMonitoring\<close> seeds the cursor from one chain read and arms the timer.\<close>

definition startMonitoring :: "BlockMonitor \<Rightarrow> PollEnv \<Rightarrow> BlockMonitor \<times> event list" where
  "startMonitoring m env =
     (if isMonitoring m then (m, [])
      else case getContractData env of
        (initialData, reads) \<Rightarrow>
          (m\<lparr>currentBlockIndex := index initialData, isMonitoring := True,
             monitoringInterval := True\<rparr>, reads))"

text \<open>A sequence of timer ticks, each calling \<open>checkForNewBlocks\<close>.\<close>

fun runPolls :: "BlockMonitor \<Rightarrow> PollEnv list \<Rightarrow> BlockMonitor \<times> event list" where
  "runPolls m [] = (m, [])"
| "runPolls m (env # envs) =
     (case checkForNewBlocks m env of
        (m1, evs) \<Rightarrow> (case runPolls m1 envs of (m2, evs') \<Rightarrow> (m2, evs @ evs')))"

fun postedIndices :: "event list \<Rightarrow> nat list" where
  "postedIndices [] = []"
| "postedIndices (Posted n # evs) = blockIndex n # postedIndices evs"
| "postedIndices (e # evs) = postedIndices evs"

fun chainReads :: "event list \<Rightarrow> nat" where
  "chainReads [] = 0"
| "chainReads (Posted n # evs) = chainReads evs"
| "chainReads (e # evs) = Suc (chainReads evs)"

text \<open>The farm index a poll observes: the value read, or 0 when the read failed.\<close>

definition observedIndex :: "PollEnv \<Rightarrow> nat" where
  "observedIndex env = index (fst (getContractData env))"

text \<open>An exception escapes the body of a poll and reaches \<open>handleMonitoringError\<close>.
  The code lets one through only while a new block is handled; a transport or decode
  error of a chain read never does, since the chain reader catches it.\<close>

definition pollThrows :: "BlockMonitor \<Rightarrow> PollEnv \<Rightarrow> bool" where
  "pollThrows m env =
     (\<not> isShuttingDown m \<and>
      (case getContractData env of
         (contractData, reads) \<Rightarrow>
           index contractData > currentBlockIndex m \<and>
           snd (snd (handleNewBlockDiscovered m contractData env)) \<noteq> None))"

section \<open>Work submission service\<close>

text \<open>
  One attempt of \<open>submitWork\<close> builds and simulates the transaction and sends it to the
  relay. The environment gives the outcome of each attempt: a simulation that reports an
  error, an exception thrown while building or sending (with its message), or the relay's
  acceptance with the transaction hash. Messages are strings of 8-bit characters;
  \<open>toLowerCase\<close> maps the letters A to Z.
\<close>

datatype attempt_outcome =
    SimulationError string
  | Threw string
  | Accepted string

record WorkSubmissionResult =
  sr_success :: bool
  transactionHash :: "string option"
  sr_error :: "string option"

datatype submit_event = Attempt nat | Sleep nat

definition toLowerChar :: "char \<Rightarrow> char" where
  "toLowerChar c =
     (let n = (of_char c :: nat)
      in if 65 \<le> n \<and> n \<le> 90 then char_of (n + 32) else c)"

definition toLowerCase :: "string \<Rightarrow> string" where
  "toLowerCase s = map toLowerChar s"

text \<open>\<open>s.includes(t)\<close>: \<open>t\<close> occurs in \<open>s\<close> as a contiguous substring.\<close>

fun includes_str :: "string \<Rightarrow> string \<Rightarrow> bool" where
  "includes_str [] t = (t = [])"
| "includes_str (c # s) t = (prefix t (c # s) \<or> includes_str s t)"

definition retryableErrors :: "string list" where
  "retryableErrors =
     [''NOT_FOUND'', ''timeout'', ''ECONNRESET'', ''ENOTFOUND'', ''ETIMEDOUT'',
      ''fetch failed'', ''network error'']"

definition isRetryableError :: "string \<Rightarrow> bool" where
  "isRetryableError errorMessage =
     list_ex (\<lambda>e. includes_str (toLowerCase errorMessage) (toLowerCase e)) retryableErrors"

definition maxRetries :: nat where
  "maxRetries = 3"

definition retryDelay :: nat where
  "retryDelay = 2000"

text \<open>The loop \<open>for (attempt = 1; attempt <= maxRetries; attempt++)\<close>, entered at
  \<open>attempt\<close>. The trace lists the attempts made and the sleeps between them.\<close>

function submitLoop ::
  "(nat \<Rightarrow> attempt_outcome) \<Rightarrow> nat \<Rightarrow> WorkSubmissionResult \<times> submit_event list" where
  "submitLoop relay attempt =
     (if attempt \<le> maxRetries
      then (case relay attempt of
              SimulationError e \<Rightarrow>
                (\<lparr>sr_success = False, transactionHash = None,
                  sr_error = Some (''Simulation failed: '' @ e)\<rparr>, [Attempt attempt])
            | Accepted h \<Rightarrow>
                (\<lparr>sr_success = True, transactionHash = Some h, sr_error = None\<rparr>,
                 [Attempt attempt])
            | Threw errorMessage \<Rightarrow>
                if attempt = maxRetries \<or> \<not> isRetryableError errorMessage
                then (\<lparr>sr_success = False, transactionHash = None,
                       sr_error = Some errorMessage\<rparr>, [Attempt attempt])
                else (case submitLoop relay (attempt + 1) of
                        (r, evs) \<Rightarrow> (r, Attempt attempt # Sleep retryDelay # evs)))
      else (\<lparr>sr_success = False, transactionHash = None,
             sr_error = Some ''Maximum retry attempts exceeded''\<rparr>, []))"
  by pat_completeness auto
termination
  by (relation "measure (\<lambda>(relay, attempt). maxRetries + 1 - attempt)") auto

text \<open>The equation of the loop is unfolded by hand, one iteration at a time.\<close>

declare submitLoop.simps [simp del]

definition submitWork ::
  "(nat \<Rightarrow> attempt_outcome) \<Rightarrow> WorkSubmissionResult \<times> submit_event list" where
  "submitWork relay = submitLoop relay 1"

fun attemptsMade :: "submit_event list \<Rightarrow> nat list" where
  "attemptsMade [] = []"
| "attemptsMade (Attempt k # evs) = k # attemptsMade evs"
| "attemptsMade (Sleep d # evs) = attemptsMade evs"

text \<open>The trace of \<open>n\<close> attempts numbered from \<open>k\<close>, each but the last followed by one
  sleep of \<open>d\<close> milliseconds.\<close>

fun attemptsWithSleeps :: "nat \<Rightarrow> nat \<Rightarrow> nat \<Rightarrow> submit_event list" where
  "attemptsWithSleeps d k 0 = []"
| "attemptsWithSleeps d k (Suc 0) = [Attempt k]"
| "attemptsWithSleeps d k (Suc (Suc n)) =
     Attempt k # Sleep d # attemptsWithSleeps d (Suc k) (Suc n)"

section \<open>Work Manager\<close>

text \<open>
  The miner process, the clock and the relay are the environment (\<open>WorkEnv\<close>): the
  outcome of the k-th run of the miner for its arguments, the work time measured for that
  run, and the outcome of each attempt of the k-th call of \<open>submitWork\<close>. The world counts
  the runs and the calls and keeps the trace of what was started.

  A run of the miner either throws before the output is read (key derivation or spawn),
  gives no output (the timeout won the race, or \<open>readWorkStream\<close> returned null on empty or
  malformed output), or prints a last line \<open>[nonce, hash]\<close>. The printed nonce goes through
  \<open>parseInt\<close>: \<open>None\<close> stands for NaN.
\<close>

datatype WorkStatus = success | failed | recovered

record WorkRequest =
  wr_farmerId :: string
  wr_custodialWallet :: string
  wr_custodialSecretKey :: string
  wr_blockIndex :: nat
  wr_entropy :: string
  wr_stakeAmount :: string

text \<open>An optional field holds \<open>None\<close> when absent; a present nonce is \<open>Some None\<close> when
  it is NaN.\<close>

record WorkResult =
  farmerId :: string
  custodialWallet :: string
  status :: WorkStatus
  nonce :: "int option option"
  hash :: "string option"
  zeros :: "nat option"
  gap :: "nat option"
  wr_workTime :: int
  attempts :: nat
  error :: "string option"
  compensationRequired :: bool

record WorkBatchResult =
  br_blockIndex :: nat
  workResults :: "WorkResult list"
  totalWorkTime :: int
  br_timestamp :: int

record MinerArgs =
  farmerSecret :: string
  minerIndex :: nat
  minerEntropy :: string
  nonceCount :: nat

datatype miner_run =
    MinerThrew string
  | NoOutput string
  | LastLine "int option" string

record WorkOutput =
  wo_nonce :: "int option"
  wo_hash :: string
  wo_zeros :: nat
  wo_gap :: nat

datatype work_event =
    MinerRun MinerArgs
  | SubmitCall string "submit_event list"

record WorkEnv =
  miner :: "nat \<Rightarrow> MinerArgs \<Rightarrow> miner_run"
  measured :: "nat \<Rightarrow> int"
  relay :: "nat \<Rightarrow> nat \<Rightarrow> attempt_outcome"
  batchFault :: "string option"
  batchElapsed :: int
  batchFinished :: int

record World =
  minerRuns :: nat
  submitCalls :: nat
  trace :: "work_event list"

definition WORK_DELAY_SECONDS :: int where
  "WORK_DELAY_SECONDS = 150"

definition MAX_RECOVERY_ATTEMPTS :: nat where
  "MAX_RECOVERY_ATTEMPTS = 3"

definition NONCE_COUNT :: nat where
  "NONCE_COUNT = 10000000"

definition calculateGap :: "string \<Rightarrow> nat" where
  "calculateGap h = 15"

definition countLeadingZeros :: "string \<Rightarrow> nat" where
  "countLeadingZeros h = length (takeWhile (\<lambda>c. c = CHR ''0'') h)"

text \<open>The end of \<open>readWorkStream\<close>, from the parsed last line.\<close>

definition readWorkStream :: "int option \<Rightarrow> string \<Rightarrow> WorkOutput" where
  "readWorkStream n h =
     \<lparr>wo_nonce = n, wo_hash = h, wo_zeros = countLeadingZeros h, wo_gap = calculateGap h\<rparr>"

definition runMiner :: "WorkEnv \<Rightarrow> World \<Rightarrow> MinerArgs \<Rightarrow> miner_run \<times> int \<times> World" where
  "runMiner env w args =
     (miner env (minerRuns w) args, measured env (minerRuns w),
      w\<lparr>minerRuns := minerRuns w + 1, trace := trace w @ [MinerRun args]\<rparr>)"

definition callSubmitWork :: "WorkEnv \<Rightarrow> World \<Rightarrow> string \<Rightarrow> WorkSubmissionResult \<times> World" where
  "callSubmitWork env w farmerPublicKey =
     (case submitWork (relay env (submitCalls w)) of
        (r, evs) \<Rightarrow>
          (r, w\<lparr>submitCalls := submitCalls w + 1,
                trace := trace w @ [SubmitCall farmerPublicKey evs]\<rparr>))"

definition minedResult ::
  "WorkRequest \<Rightarrow> WorkOutput \<Rightarrow> int \<Rightarrow> nat \<Rightarrow> WorkStatus \<Rightarrow> bool \<Rightarrow> string option \<Rightarrow> WorkResult" where
  "minedResult workRequest out t n st compensate err =
     \<lparr>farmerId = wr_farmerId workRequest,
      custodialWallet = wr_custodialWallet workRequest,
      status = st,
      nonce = Some (wo_nonce out),
      hash = Some (wo_hash out),
      zeros = Some (wo_zeros out),
      gap = Some (wo_gap out),
      wr_workTime = t,
      attempts = n,
      error = err,
      compensationRequired = compensate\<rparr>"

text \<open>\<open>executeWorkForFarmer\<close>: the first attempt for one farmer, with the default nonce
  count. Every exception of the mining part lands in the outer catch; a failed or
  throwing submission returns from the inner branches. \<open>BigInt\<close> of a NaN nonce throws
  before \<open>submitWork\<close> is entered.\<close>

definition executeWorkForFarmer ::
  "WorkEnv \<Rightarrow> World \<Rightarrow> nat \<Rightarrow> string \<Rightarrow> WorkRequest \<Rightarrow> WorkResult \<times> World" where
  "executeWorkForFarmer env w blockIdx entropyHex64 workRequest =
     (let args = \<lparr>farmerSecret = wr_custodialSecretKey workRequest, minerIndex = blockIdx,
                  minerEntropy = entropyHex64, nonceCount = NONCE_COUNT\<rparr>;
          caught = (\<lambda>t msg.
                     \<lparr>farmerId = wr_farmerId workRequest,
                      custodialWallet = wr_custodialWallet workRequest,
                      status = failed, nonce = None, hash = None, zeros = None, gap = None,
                      wr_workTime = t, attempts = 1, error = Some msg,
                      compensationRequired = True\<rparr>)
      in case runMiner env w args of
           (MinerThrew e, t, w1) \<Rightarrow> (caught t e, w1)
         | (NoOutput stderrOutput, t, w1) \<Rightarrow>
             (caught t (''Work process timed out or produced no output. stderr: ''
                        @ stderrOutput), w1)
         | (LastLine n h, t, w1) \<Rightarrow>
             (let out = readWorkStream n h
              in case wo_nonce out of
                   None \<Rightarrow>
                     (minedResult workRequest out t 1 failed True
                        (Some ''Smart contract submission exception: RangeError''), w1)
                 | Some v \<Rightarrow>
                     (case callSubmitWork env w1 (wr_custodialWallet workRequest) of
                        (r, w2) \<Rightarrow>
                          if \<not> sr_success r
                          then (minedResult workRequest out t 1 failed True
                                  (Some (''Smart contract submission failed: ''
                                         @ (case sr_error r of None \<Rightarrow> ''undefined''
                                            | Some e \<Rightarrow> e))), w2)
                          else (minedResult workRequest out t 1 success False None, w2))))"

text \<open>\<open>executeWorkWithParams\<close>: one recovery attempt. Key derivation and spawn are outside
  its try block and a missing output throws, so all three leave it as an exception.\<close>

definition executeWorkWithParams ::
  "WorkEnv \<Rightarrow> World \<Rightarrow> nat \<Rightarrow> string \<Rightarrow> WorkRequest \<Rightarrow> nat \<Rightarrow> nat
     \<Rightarrow> (string + WorkResult) \<times> World" where
  "executeWorkWithParams env w blockIdx entropyHex64 workRequest count attemptNumber =
     (let args = \<lparr>farmerSecret = wr_custodialSecretKey workRequest, minerIndex = blockIdx,
                  minerEntropy = entropyHex64, nonceCount = count\<rparr>
      in case runMiner env w args of
           (MinerThrew e, t, w1) \<Rightarrow> (Inl e, w1)
         | (NoOutput stderrOutput, t, w1) \<Rightarrow> (Inl ''Work process timed out'', w1)
         | (LastLine n h, t, w1) \<Rightarrow>
             (let out = readWorkStream n h
              in case wo_nonce out of
                   None \<Rightarrow>
                     (Inr (minedResult workRequest out t attemptNumber failed True
                        (Some ''Recovery work smart contract submission exception: RangeError'')),
                      w1)
                 | Some v \<Rightarrow>
                     (case callSubmitWork env w1 (wr_custodialWallet workRequest) of
                        (r, w2) \<Rightarrow>
                          if \<not> sr_success r
                          then (Inr (minedResult workRequest out t attemptNumber failed True
                                  (Some (''Recovery work smart contract submission failed: ''
                                         @ (case sr_error r of None \<Rightarrow> ''undefined''
                                            | Some e \<Rightarrow> e)))), w2)
                          else (Inr (minedResult workRequest out t attemptNumber success False
                                       None), w2))))"

text \<open>\<open>attemptRecovery\<close>: the loop \<open>for (attempt = 1; attempt <= MAX_RECOVERY_ATTEMPTS;
  attempt++)\<close>, entered at \<open>attempt\<close>; an exception of an attempt is caught and logged.\<close>

function recoveryLoop ::
  "WorkEnv \<Rightarrow> World \<Rightarrow> nat \<Rightarrow> string \<Rightarrow> WorkRequest \<Rightarrow> nat \<Rightarrow> WorkResult option \<times> World" where
  "recoveryLoop env w blockIdx entropyHex64 workRequest attempt =
     (if attempt \<le> MAX_RECOVERY_ATTEMPTS
      then (let recoveryNonceCount = NONCE_COUNT + attempt * 1000000
            in case executeWorkWithParams env w blockIdx entropyHex64 workRequest
                      recoveryNonceCount (attempt + 1) of
                 (Inr recoveryResult, w1) \<Rightarrow>
                   if status recoveryResult = success
                   then (Some (recoveryResult\<lparr>status := recovered\<rparr>), w1)
                   else recoveryLoop env w1 blockIdx entropyHex64 workRequest (attempt + 1)
               | (Inl e, w1) \<Rightarrow>
                   recoveryLoop env w1 blockIdx entropyHex64 workRequest (attempt + 1))
      else (None, w))"
  by pat_completeness auto
termination
  by (relation "measure (\<lambda>(env, w, blockIdx, entropyHex64, workRequest, attempt).
                           MAX_RECOVERY_ATTEMPTS + 1 - attempt)") auto

declare recoveryLoop.simps [simp del]

definition attemptRecovery ::
  "WorkEnv \<Rightarrow> World \<Rightarrow> nat \<Rightarrow> string \<Rightarrow> WorkRequest \<Rightarrow> WorkResult option \<times> World" where
  "attemptRecovery env w blockIdx entropyHex64 workRequest =
     recoveryLoop env w blockIdx entropyHex64 workRequest 1"

text \<open>The loop of \<open>executeWorkBatch\<close> over the work requests: push the result, then try
  the recovery under the guard of the source and replace the last element.\<close>

fun batchLoop ::
  "WorkEnv \<Rightarrow> World \<Rightarrow> nat \<Rightarrow> string \<Rightarrow> WorkRequest list \<Rightarrow> WorkResult list
     \<Rightarrow> WorkResult list \<times> World" where
  "batchLoop env w blockIdx entropyHex64 [] results = (results, w)"
| "batchLoop env w blockIdx entropyHex64 (workRequest # rest) results =
     (case executeWorkForFarmer env w blockIdx entropyHex64 workRequest of
        (result, w1) \<Rightarrow>
          (let pushed = results @ [result]
           in if status result = failed \<and> \<not> compensationRequired result
              then (case attemptRecovery env w1 blockIdx entropyHex64 workRequest of
                      (Some recoveryResult, w2) \<Rightarrow>
                        batchLoop env w2 blockIdx entropyHex64 rest
                          (pushed[length pushed - 1 := recoveryResult])
                    | (None, w2) \<Rightarrow> batchLoop env w2 blockIdx entropyHex64 rest pushed)
              else batchLoop env w1 blockIdx entropyHex64 rest pushed))"

definition executeWorkBatch ::
  "WorkEnv \<Rightarrow> World \<Rightarrow> nat \<Rightarrow> string \<Rightarrow> WorkRequest list \<Rightarrow> WorkBatchResult \<times> World" where
  "executeWorkBatch env w blockIdx entropyHex64 workRequests =
     (case batchLoop env w blockIdx entropyHex64 workRequests [] of
        (results, w1) \<Rightarrow>
          (\<lparr>br_blockIndex = blockIdx, workResults = results,
            totalWorkTime = batchElapsed env, br_timestamp = batchFinished env\<rparr>, w1))"

subsection \<open>Scheduling\<close>

datatype js_timestamp = Number int | BigInt int

definition blockTimestampToMs :: "js_timestamp \<Rightarrow> int" where
  "blockTimestampToMs ts =
     (case ts of
        BigInt b \<Rightarrow> b * 1000
      | Number n \<Rightarrow> if n > 10000000000 then n else n * 1000)"

record Schedule =
  targetTimeMs :: int
  waitTimeMs :: int

definition workSchedule :: "int \<Rightarrow> js_timestamp \<Rightarrow> Schedule" where
  "workSchedule currentTimeMs ts =
     (let blockTimeMs = blockTimestampToMs ts;
          target = blockTimeMs + WORK_DELAY_SECONDS * 1000
      in \<lparr>targetTimeMs = target, waitTimeMs = max 0 (target - currentTimeMs)\<rparr>)"

text \<open>\<open>scheduleWork\<close> waits \<open>waitTimeMs\<close> and runs the batch; the promise is rejected when
  an exception escapes \<open>executeWorkBatch\<close>. No statement of the batch throws by itself:
  such an exception comes from the runtime and is given by \<open>batchFault\<close>.\<close>

definition scheduleWork ::
  "WorkEnv \<Rightarrow> World \<Rightarrow> int \<Rightarrow> js_timestamp \<Rightarrow> nat \<Rightarrow> string \<Rightarrow> WorkRequest list
     \<Rightarrow> Schedule \<times> (string + WorkBatchResult) \<times> World" where
  "scheduleWork env w currentTimeMs ts blockIdx entropyHex64 workRequests =
     (let sched = workSchedule currentTimeMs ts
      in case batchFault env of
           Some e \<Rightarrow> (sched, Inl e, w)
         | None \<Rightarrow>
             (case executeWorkBatch env w blockIdx entropyHex64 workRequests of
                (r, w1) \<Rightarrow> (sched, Inr r, w1)))"

section \<open>Pool Coordinator\<close>

record PlantedFarmer =
  pf_farmerId :: string
  pf_custodialWallet :: string
  pf_custodialSecretKey :: string
  pf_stakeAmount :: string
  pf_plantingTime :: int

record PlantingNotification =
  pn_blockIndex :: nat
  pn_entropy :: string
  blockTimestamp :: int
  plantedFarmers :: "PlantedFarmer list"

text \<open>The body of the work-completed POST (\<open>summary\<close> flattened).\<close>

record WorkCompletionNotification =
  wc_blockIndex :: nat
  wc_workResults :: "WorkResult list"
  totalFarmers :: nat
  successfulWork :: nat
  failedWork :: nat
  wc_totalWorkTime :: int
  wc_timestamp :: int

record PoolCoordinator =
  pendingWorkBlocks :: "nat \<rightharpoonup> PlantingNotification"
  activeWorkPromises :: "nat set"

definition toWorkRequests :: "PlantingNotification \<Rightarrow> WorkRequest list" where
  "toWorkRequests notification =
     map (\<lambda>farmer.
            \<lparr>wr_farmerId = pf_farmerId farmer,
             wr_custodialWallet = pf_custodialWallet farmer,
             wr_custodialSecretKey = pf_custodialSecretKey farmer,
             wr_blockIndex = pn_blockIndex notification,
             wr_entropy = pn_entropy notification,
             wr_stakeAmount = pf_stakeAmount farmer\<rparr>)
         (plantedFarmers notification)"

text \<open>\<open>handleWorkCompletion\<close> and \<open>handleWorkError\<close> return the reports they POST to the
  Backend (a failed POST is logged and not repeated).\<close>

definition handleWorkCompletion :: "nat \<Rightarrow> WorkBatchResult \<Rightarrow> WorkCompletionNotification list" where
  "handleWorkCompletion blockIdx result =
     (let successCount = length (filter (\<lambda>r. status r = success \<or> status r = recovered)
                                   (workResults result));
          failedCount = length (filter (\<lambda>r. status r = failed) (workResults result))
      in [\<lparr>wc_blockIndex = blockIdx,
           wc_workResults = workResults result,
           totalFarmers = length (workResults result),
           successfulWork = successCount,
           failedWork = failedCount,
           wc_totalWorkTime = totalWorkTime result,
           wc_timestamp = br_timestamp result\<rparr>])"

definition handleWorkError ::
  "PoolCoordinator \<Rightarrow> nat \<Rightarrow> string \<Rightarrow> int \<Rightarrow> WorkCompletionNotification list" where
  "handleWorkError c blockIdx message currentTimeMs =
     (case pendingWorkBlocks c blockIdx of
        None \<Rightarrow> []
      | Some notification \<Rightarrow>
          (let failedResults =
                 map (\<lambda>farmer.
                        \<lparr>farmerId = pf_farmerId farmer,
                         custodialWallet = pf_custodialWallet farmer,
                         status = failed, nonce = None, hash = None, zeros = None,
                         gap = None, wr_workTime = 0, attempts = 0,
                         error = Some (if message = [] then ''Work execution failed''
                                       else message),
                         compensationRequired = True\<rparr>)
                     (plantedFarmers notification)
           in [\<lparr>wc_blockIndex = blockIdx,
                wc_workResults = failedResults,
                totalFarmers = length failedResults,
                successfulWork = 0,
                failedWork = length failedResults,
                wc_totalWorkTime = 0,
                wc_timestamp = currentTimeMs\<rparr>]))"

text \<open>\<open>receivePlantingNotification\<close>, with the scheduled work run to its end: the
  notification is stored, the work is scheduled, the completion or the error handler
  sends its report, and both map entries are removed.\<close>

definition receivePlantingNotification ::
  "PoolCoordinator \<Rightarrow> WorkEnv \<Rightarrow> World \<Rightarrow> int \<Rightarrow> PlantingNotification
     \<Rightarrow> PoolCoordinator \<times> WorkCompletionNotification list \<times> World" where
  "receivePlantingNotification c env w currentTimeMs notification =
     (if length (plantedFarmers notification) = 0 then (c, [], w)
      else
        (let blockIdx = pn_blockIndex notification;
             c1 = c\<lparr>pendingWorkBlocks := (pendingWorkBlocks c)(blockIdx \<mapsto> notification)\<rparr>;
             workRequests = toWorkRequests notification
         in case scheduleWork env w currentTimeMs (Number (blockTimestamp notification))
                   blockIdx (pn_entropy notification) workRequests of
              (sched, outcome, w1) \<Rightarrow>
                (let c2 = c1\<lparr>activeWorkPromises := insert blockIdx (activeWorkPromises c1)\<rparr>;
                     reports = (case outcome of
                                  Inr result \<Rightarrow> handleWorkCompletion blockIdx result
                                | Inl e \<Rightarrow> handleWorkError c2 blockIdx e (batchFinished env));
                     c3 = c2\<lparr>activeWorkPromises := activeWorkPromises c2 - {blockIdx},
                             pendingWorkBlocks := (pendingWorkBlocks c2)(blockIdx := None)\<rparr>
                 in (c3, reports, w1))))"

text \<open>The invariant of a work result that the Backend relies on.\<close>

definition compensationCorrect :: "WorkResult \<Rightarrow> bool" where
  "compensationCorrect r = (compensationRequired r = (status r = failed))"

section \<open>Notions used by the properties\<close>

text \<open>The clock of a poll is a real clock: a time after the epoch whose timing
  predictions are valid dates.\<close>

definition realClock :: "PollEnv \<Rightarrow> bool" where
  "realClock env = (0 \<le> now env \<and> now env \<le> 8640000000000000 - 210000)"

text \<open>The timestamp of the block a poll reads can be rendered as a date together with
  its timing predictions (210 s later at most): it is missing, or at most 8639999999790
  seconds.\<close>

definition blockTimestampInRange :: "PollEnv \<Rightarrow> bool" where
  "blockTimestampInRange env =
     (case block (fst (getContractData env)) of
        None \<Rightarrow> True
      | Some k \<Rightarrow> (case timestamp k of
                     None \<Rightarrow> True
                   | Some t \<Rightarrow> t \<le> 8639999999790))"

text \<open>Consecutive polls in each of which an exception escapes the poll body: each poll
  of the sequence throws in the state the previous one left. Polls whose chain read
  fails are not among them.\<close>

fun allThrow :: "BlockMonitor \<Rightarrow> PollEnv list \<Rightarrow> bool" where
  "allThrow m [] = True"
| "allThrow m (env # envs) = (pollThrows m env \<and> allThrow (fst (checkForNewBlocks m env)) envs)"

section \<open>Scenario values\<close>

text \<open>A running monitor with its cursor at a given index, the block of scenario S1 with
  a given timestamp, and a poll that reads a given index and that block at a given time.\<close>

definition runningMonitor :: "nat \<Rightarrow> BlockMonitor" where
  "runningMonitor cursor =
     \<lparr>currentBlockIndex = cursor, lastBlockTimestamp = None, isMonitoring = True,
      consecutiveMissedBlocks = 0, totalBlocksDiscovered = 0, startTime = 0,
      lastNotificationSent = None, errorCount = 0, maxErrorCount = 10,
      monitoringInterval = True, isShuttingDown = False\<rparr>"

definition blockS1 :: "nat \<Rightarrow> KaleBlock" where
  "blockS1 t =
     \<lparr>timestamp = Some t, min_gap = 0, min_stake = 10000000, min_zeros = 6, max_gap = 30,
      max_stake = 100000000, max_zeros = 9, entropy = None\<rparr>"

definition pollSeeing :: "nat \<Rightarrow> nat \<Rightarrow> int \<Rightarrow> http_reply \<Rightarrow> PollEnv" where
  "pollSeeing i t clock reply =
     \<lparr>indexRead = Inr i, blockRead = Inr (blockS1 t), now = clock, nowNotify = clock,
      nowAck = clock, postReply = reply\<rparr>"

text \<open>Block 101 is 45 s old and the Backend is unreachable.\<close>

definition outagePoll :: PollEnv where
  "outagePoll = pollSeeing 101 1700000000 1700000045000 (FetchFailed ''ECONNREFUSED'')"

text \<open>The farm-index read fails with a transport error.\<close>

definition rpcDownPoll :: PollEnv where
  "rpcDownPoll =
     (pollSeeing 101 1700000000 1700000045000 (Replied True))\<lparr>indexRead := Inl ''ECONNRESET''\<rparr>"

text \<open>The chain shows index 5, then 4, then 5 again.\<close>

definition reorgPolls :: "PollEnv list" where
  "reorgPolls = [pollSeeing 5 1700000000 1700000045000 (Replied True),
                 pollSeeing 4 1700000000 1700000050000 (Replied True),
                 pollSeeing 5 1700000000 1700000055000 (Replied True)]"

text \<open>The chain stays at index 101; the farm-index read of the second poll fails.\<close>

definition outageAndBack :: "PollEnv list" where
  "outageAndBack = [pollSeeing 101 1700000000 1700000045000 (Replied True),
                    rpcDownPoll,
                    pollSeeing 101 1700000000 1700000055000 (Replied True)]"

text \<open>Ten polls in a row whose farm-index read fails.\<close>

definition rpcDownTen :: "PollEnv list" where
  "rpcDownTen = replicate 10 rpcDownPoll"

text \<open>The chain shows index 5, 5, 6.\<close>

definition steadyPolls :: "PollEnv list" where
  "steadyPolls = [pollSeeing 5 1700000000 1700000045000 (Replied True),
                  pollSeeing 5 1700000000 1700000050000 (Replied True),
                  pollSeeing 6 1700000300 1700000345000 (Replied True)]"

text \<open>Scenario S2: block 101 is 400 s old.\<close>

definition stalePoll :: PollEnv where
  "stalePoll = pollSeeing 101 1700000000 1700000400000 (Replied True)"

text \<open>A block whose timestamp lies beyond the range of dates, and a monitor that halts at
  the second consecutive error.\<close>

definition farFuture :: nat where
  "farFuture = 9000000000000"

definition badPoll :: PollEnv where
  "badPoll = pollSeeing 101 farFuture 1700000045000 (Replied True)"

definition strictMonitor :: BlockMonitor where
  "strictMonitor = (runningMonitor 100)\<lparr>maxErrorCount := 2\<rparr>"

text \<open>An attempt of a submission that throws with a retryable message.\<close>

definition retryableAt :: "(nat \<Rightarrow> attempt_outcome) \<Rightarrow> nat \<Rightarrow> bool" where
  "retryableAt outcomes k =
     (case outcomes k of Threw msg \<Rightarrow> isRetryableError msg | _ \<Rightarrow> False)"

text \<open>Scenario S5: the first two attempts of a submission throw \<open>fetch failed\<close>, the
  third is accepted.\<close>

definition relayS5 :: "nat \<Rightarrow> attempt_outcome" where
  "relayS5 k = (if k < 3 then Threw ''fetch failed'' else Accepted ''BBB'')"

text \<open>Scenario S7: the simulation fails with a contract error.\<close>

definition relayS7 :: "nat \<Rightarrow> attempt_outcome" where
  "relayS7 k = SimulationError ''Error(Contract, #13)''"

text \<open>The planting notification of scenario S4, with a second farmer.\<close>

definition entropyS4 :: string where
  "entropyS4 = concat (replicate 32 ''ab'')"

definition farmerF1 :: PlantedFarmer where
  "farmerF1 = \<lparr>pf_farmerId = ''F1'', pf_custodialWallet = ''GAF1KALE'',
               pf_custodialSecretKey = ''SAF1'', pf_stakeAmount = ''1000000'',
               pf_plantingTime = 1700000035000\<rparr>"

definition farmerF2 :: PlantedFarmer where
  "farmerF2 = \<lparr>pf_farmerId = ''F2'', pf_custodialWallet = ''GAF2KALE'',
               pf_custodialSecretKey = ''SAF2'', pf_stakeAmount = ''2000000'',
               pf_plantingTime = 1700000036000\<rparr>"

definition notificationS4 :: PlantingNotification where
  "notificationS4 = \<lparr>pn_blockIndex = 201, pn_entropy = entropyS4,
                     blockTimestamp = 1700000000, plantedFarmers = [farmerF1, farmerF2]\<rparr>"

definition requestF1 :: WorkRequest where
  "requestF1 = \<lparr>wr_farmerId = ''F1'', wr_custodialWallet = ''GAF1KALE'',
                wr_custodialSecretKey = ''SAF1'', wr_blockIndex = 201,
                wr_entropy = entropyS4, wr_stakeAmount = ''1000000''\<rparr>"

definition freshWorld :: World where
  "freshWorld = \<lparr>minerRuns = 0, submitCalls = 0, trace = []\<rparr>"

definition idleCoordinator :: PoolCoordinator where
  "idleCoordinator = \<lparr>pendingWorkBlocks = Map.empty, activeWorkPromises = {}\<rparr>"

text \<open>Scenario S6: the first run of the miner times out, every later run prints a nonce,
  and the relay accepts.\<close>

definition timeoutThenMine :: WorkEnv where
  "timeoutThenMine =
     \<lparr>miner = (\<lambda>k args. if k = 0 then NoOutput [] else LastLine (Some 9999) ''00005ef''),
      measured = (\<lambda>k. if k = 0 then 300000 else 10000),
      relay = (\<lambda>k a. Accepted ''AAA''),
      batchFault = None, batchElapsed = 310000, batchFinished = 1700000460000\<rparr>"

text \<open>The miner never gives output.\<close>

definition neverMines :: WorkEnv where
  "neverMines = timeoutThenMine\<lparr>miner := (\<lambda>k args. NoOutput [])\<rparr>"

text \<open>The miner prints a nonce on every run; the relay accepts the first submission and
  the simulation of every later one fails (scenario S7).\<close>

definition acceptThenReject :: WorkEnv where
  "acceptThenReject =
     \<lparr>miner = (\<lambda>k args. LastLine (Some 77) ''000d''),
      measured = (\<lambda>k. 60000),
      relay = (\<lambda>k a. if k = 0 then Accepted ''AAA''
                      else SimulationError ''Error(Contract, #13)''),
      batchFault = None, batchElapsed = 120000, batchFinished = 1700000270000\<rparr>"

text \<open>The same environment with an exception that escapes the batch.\<close>

definition batchCrashes :: WorkEnv where
  "batchCrashes = acceptThenReject\<lparr>batchFault := Some ''Work execution crashed''\<rparr>"

section \<open>Properties of the Block Monitor\<close>

lemmas monitor_defs = checkForNewBlocks_def getContractData_def getIndex_def getBlock_def
  handleNewBlockDiscovered_def notifyBackend_def resetErrorCount_def handleMonitoringError_def
  stopMonitoring_def calculateTimingPredictions_def validDate_def truthyTimestamp_def
  buildNotification_def isPlantable_def entropyHex_def pollThrows_def observedIndex_def Let_def

lemmas fixture_defs = runningMonitor_def blockS1_def pollSeeing_def farFuture_def

lemma getContractData_reads: "postedIndices (snd (getContractData env)) = []"
  by (auto simp: getContractData_def getIndex_def getBlock_def split: sum.splits prod.splits)

lemma postedIndices_append: "postedIndices (xs @ ys) = postedIndices xs @ postedIndices ys"
  by (induction xs rule: postedIndices.induct) auto

text \<open>The handler either throws before it touches the state, or moves the cursor to the
  new index and sends one POST for it.\<close>

lemma handle_cases:
  "handleNewBlockDiscovered m cd env = (m, [], Some ''RangeError: Invalid time value'') \<or>
   (\<exists>m2 n. handleNewBlockDiscovered m cd env = (m2, [Posted n], None) \<and>
      currentBlockIndex m2 = index cd \<and> blockIndex n = index cd \<and>
      isShuttingDown m2 = isShuttingDown m \<and> errorCount m2 = errorCount m \<and>
      monitoringInterval m2 = monitoringInterval m \<and> isMonitoring m2 = isMonitoring m)"
  by (auto simp: handleNewBlockDiscovered_def notifyBackend_def buildNotification_def
       calculateTimingPredictions_def Let_def split: sum.splits http_reply.splits option.splits)

text \<open>One poll: what it posts and where it leaves the cursor.\<close>

lemma poll_step:
  assumes a: "checkForNewBlocks m env = (m', evs)"
  shows "(postedIndices evs = [] \<and>
          (currentBlockIndex m' = currentBlockIndex m \<or> currentBlockIndex m' = observedIndex env)) \<or>
         (postedIndices evs = [observedIndex env] \<and> currentBlockIndex m < observedIndex env \<and>
          currentBlockIndex m' = observedIndex env)"
proof -
  obtain cd reads where g: "getContractData env = (cd, reads)" by (cases "getContractData env")
  have oi: "observedIndex env = index cd" using g by (simp add: observedIndex_def)
  have pr: "postedIndices reads = []" using getContractData_reads[of env] g by simp
  show ?thesis
  proof (cases "isShuttingDown m")
    case True
    with a show ?thesis by (auto simp: checkForNewBlocks_def)
  next
    case False
    show ?thesis
    proof (cases "index cd > currentBlockIndex m")
      case True
      from handle_cases[of m cd env] show ?thesis
      proof
        assume "handleNewBlockDiscovered m cd env = (m, [], Some ''RangeError: Invalid time value'')"
        with a g False True have "m' = handleMonitoringError m" "evs = reads @ []"
          by (auto simp: checkForNewBlocks_def)
        then show ?thesis using pr
          by (auto simp: handleMonitoringError_def stopMonitoring_def Let_def)
      next
        assume "\<exists>m2 n. handleNewBlockDiscovered m cd env = (m2, [Posted n], None) \<and>
            currentBlockIndex m2 = index cd \<and> blockIndex n = index cd \<and>
            isShuttingDown m2 = isShuttingDown m \<and> errorCount m2 = errorCount m \<and>
            monitoringInterval m2 = monitoringInterval m \<and> isMonitoring m2 = isMonitoring m"
        then obtain m2 n where h: "handleNewBlockDiscovered m cd env = (m2, [Posted n], None)"
          and c: "currentBlockIndex m2 = index cd" and b: "blockIndex n = index cd" by blast
        with a g False True have "m' = resetErrorCount m2" "evs = reads @ [Posted n]"
          by (auto simp: checkForNewBlocks_def)
        then show ?thesis using pr c b True oi
          by (auto simp: resetErrorCount_def postedIndices_append)
      qed
    next
      case F2: False
      with a g False have "evs = reads" by (auto simp: checkForNewBlocks_def split: if_splits)
      moreover from a g False F2
      have "currentBlockIndex m' = currentBlockIndex m \<or> currentBlockIndex m' = index cd"
        by (auto simp: checkForNewBlocks_def resetErrorCount_def split: if_splits)
      ultimately show ?thesis using pr oi by auto
    qed
  qed
qed

lemma pollThrows_step:
  assumes "pollThrows m env"
  shows "checkForNewBlocks m env = (handleMonitoringError m, snd (getContractData env))"
proof -
  obtain cd reads where g: "getContractData env = (cd, reads)" by (cases "getContractData env")
  from assms g have n: "\<not> isShuttingDown m" and i: "index cd > currentBlockIndex m"
    and t: "snd (snd (handleNewBlockDiscovered m cd env)) \<noteq> None"
    by (auto simp: pollThrows_def)
  from handle_cases[of m cd env] t
  have "handleNewBlockDiscovered m cd env = (m, [], Some ''RangeError: Invalid time value'')"
    by auto
  with g n i show ?thesis by (simp add: checkForNewBlocks_def)
qed

lemma not_pollThrows_step:
  assumes "\<not> isShuttingDown m" "currentBlockIndex m < observedIndex env" "\<not> pollThrows m env"
  shows "\<exists>m2 n. handleNewBlockDiscovered m (fst (getContractData env)) env
                   = (m2, [Posted n], None) \<and>
           checkForNewBlocks m env
                   = (resetErrorCount m2, snd (getContractData env) @ [Posted n])"
proof -
  obtain cd reads where g: "getContractData env = (cd, reads)" by (cases "getContractData env")
  from assms g have t: "snd (snd (handleNewBlockDiscovered m cd env)) = None"
    and i: "index cd > currentBlockIndex m"
    by (auto simp: pollThrows_def observedIndex_def)
  from handle_cases[of m cd env] t obtain m2 n where
    h: "handleNewBlockDiscovered m cd env = (m2, [Posted n], None)" by auto
  with g assms(1) i show ?thesis by (simp add: checkForNewBlocks_def)
qed

text \<open>Polls that observe the index the cursor is at send nothing and leave it there.\<close>

lemma same_index_silent:
  "\<forall>e \<in> set envs. observedIndex e = currentBlockIndex m \<Longrightarrow>
   postedIndices (snd (runPolls m envs)) = [] \<and>
   currentBlockIndex (fst (runPolls m envs)) = currentBlockIndex m"
proof (induction envs arbitrary: m)
  case Nil
  then show ?case by simp
next
  case (Cons env envs)
  obtain m1 evs where c: "checkForNewBlocks m env = (m1, evs)"
    by (cases "checkForNewBlocks m env")
  obtain m2 evs' where r: "runPolls m1 envs = (m2, evs')" by (cases "runPolls m1 envs")
  from poll_step[OF c] Cons.prems
  have s: "postedIndices evs = []" "currentBlockIndex m1 = currentBlockIndex m" by auto
  with Cons.prems have "\<forall>e \<in> set envs. observedIndex e = currentBlockIndex m1" by simp
  from Cons.IH[OF this] r s c show ?case by (simp add: postedIndices_append)
qed

text \<open>Under a real clock the handling of a new block throws exactly when the timestamp of
  the block lies beyond the range of dates.\<close>

lemma pollThrows_iff_timestamp:
  assumes "realClock env" and "\<not> isShuttingDown m"
    and "currentBlockIndex m < observedIndex env"
  shows "pollThrows m env = (\<not> blockTimestampInRange env)"
proof -
  obtain cd reads where g: "getContractData env = (cd, reads)"
    by (cases "getContractData env")
  have n: "0 \<le> now env" "now env \<le> 8640000000000000 - 210000"
    using assms(1) by (simp_all add: realClock_def)
  have d1: "now env div 1000 * 1000 \<le> now env" by simp
  have d2: "0 \<le> now env div 1000 * 1000" using n(1) by simp
  have t: "(snd (snd (handleNewBlockDiscovered m cd env)) \<noteq> None) =
           (case truthyTimestamp (block cd) of None \<Rightarrow> False | Some t \<Rightarrow> 8639999999790 < t)"
    using n d1 d2
    by (auto simp: handleNewBlockDiscovered_def calculateTimingPredictions_def validDate_def
          Let_def notifyBackend_def split: option.splits http_reply.splits)
  have r: "(case truthyTimestamp (block cd) of None \<Rightarrow> False | Some t \<Rightarrow> 8639999999790 < t) =
           (\<not> blockTimestampInRange env)"
    using g by (auto simp: truthyTimestamp_def blockTimestampInRange_def split: option.splits)
  show ?thesis using assms(2,3) g t r by (simp add: pollThrows_def observedIndex_def)
qed

lemma resetErrorCount_flags:
  "isShuttingDown (resetErrorCount m) = isShuttingDown m \<and>
   monitoringInterval (resetErrorCount m) = monitoringInterval m \<and>
   isMonitoring (resetErrorCount m) = isMonitoring m \<and>
   currentBlockIndex (resetErrorCount m) = currentBlockIndex m"
  by (simp add: resetErrorCount_def)

subsection \<open>Cursor and discovery POST\<close>

text \<open>
  Claim C1, as stated: when the block-discovered POST of a new block fails, the cursor is
  left unchanged and the next poll notifies the same index again. It fails on the code:
  with the cursor at 100, a poll that reads index 101 while the Backend is unreachable
  sends the POST for 101, leaves the cursor at 101, and a second poll of the same chain
  state sends nothing.
\<close>

theorem C1_cursor_advances_on_failed_post:
  "postReply outagePoll = FetchFailed ''ECONNREFUSED'' \<and>
   currentBlockIndex (runningMonitor 100) = 100 \<and>
   postedIndices (snd (checkForNewBlocks (runningMonitor 100) outagePoll)) = [101] \<and>
   currentBlockIndex (fst (checkForNewBlocks (runningMonitor 100) outagePoll)) = 101 \<and>
   postedIndices (snd (checkForNewBlocks
      (fst (checkForNewBlocks (runningMonitor 100) outagePoll)) outagePoll)) = []"
  by (simp add: monitor_defs fixture_defs outagePoll_def)

text \<open>
  Claim C1, amended: for every poll of a running monitor that discovers a new block
  (observed index above the cursor) and is not stopped by an exception, the cursor is set
  to the observed index and one POST for that index is sent, whatever the Backend answers
  (the statement holds for every \<open>postReply\<close>); and as long as the polls that follow
  keep observing that same index (the index the chain reader returns: the farm index
  read, or 0 when that read fails), none of them sends a POST: a failed POST is not
  attempted again while the chain reader keeps returning the index of that block.
\<close>

theorem C1_cursor_advanced_before_post:
  assumes "\<not> isShuttingDown m" and "currentBlockIndex m < observedIndex env"
    and "\<not> pollThrows m env"
  shows "currentBlockIndex (fst (checkForNewBlocks m env)) = observedIndex env \<and>
         postedIndices (snd (checkForNewBlocks m env)) = [observedIndex env] \<and>
         (\<forall>envs'. (\<forall>e \<in> set envs'. observedIndex e = observedIndex env) \<longrightarrow>
            postedIndices (snd (runPolls (fst (checkForNewBlocks m env)) envs')) = [])"
proof -
  obtain m' evs where c: "checkForNewBlocks m env = (m', evs)"
    by (cases "checkForNewBlocks m env")
  from not_pollThrows_step[OF assms] c obtain m2 n where
    h: "handleNewBlockDiscovered m (fst (getContractData env)) env = (m2, [Posted n], None)"
    and e: "m' = resetErrorCount m2" "evs = snd (getContractData env) @ [Posted n]" by auto
  from handle_cases[of m "fst (getContractData env)" env] h
  have k: "currentBlockIndex m2 = observedIndex env" "blockIndex n = observedIndex env"
    by (auto simp: observedIndex_def)
  have c1: "currentBlockIndex m' = observedIndex env"
    using e k by (simp add: resetErrorCount_def)
  have p1: "postedIndices evs = [observedIndex env]"
    using e k by (simp add: postedIndices_append getContractData_reads)
  have "postedIndices (snd (runPolls m' envs')) = []"
    if "\<forall>e \<in> set envs'. observedIndex e = observedIndex env" for envs'
    using same_index_silent[of envs' m'] c1 that by simp
  with c c1 p1 show ?thesis by simp
qed

theorem C1_cursor_advanced_before_post_witness:
  "\<not> isShuttingDown (runningMonitor 100) \<and>
   currentBlockIndex (runningMonitor 100) < observedIndex outagePoll \<and>
   \<not> pollThrows (runningMonitor 100) outagePoll \<and>
   currentBlockIndex (fst (checkForNewBlocks (runningMonitor 100) outagePoll)) = 101 \<and>
   postedIndices (snd (checkForNewBlocks (runningMonitor 100) outagePoll)) = [101] \<and>
   postedIndices (snd (runPolls
      (fst (checkForNewBlocks (runningMonitor 100) outagePoll))
      [outagePoll, outagePoll, outagePoll])) = []"
proof -
  have a: "\<not> isShuttingDown (runningMonitor 100)" by (simp add: runningMonitor_def)
  have b: "currentBlockIndex (runningMonitor 100) < observedIndex outagePoll"
    by (simp add: monitor_defs fixture_defs outagePoll_def)
  have c: "\<not> pollThrows (runningMonitor 100) outagePoll"
    by (simp add: monitor_defs fixture_defs outagePoll_def)
  have o: "observedIndex outagePoll = 101"
    by (simp add: monitor_defs fixture_defs outagePoll_def)
  have s: "\<forall>e \<in> set [outagePoll, outagePoll, outagePoll].
             observedIndex e = observedIndex outagePoll" by simp
  from C1_cursor_advanced_before_post[OF a b c]
  have x: "currentBlockIndex (fst (checkForNewBlocks (runningMonitor 100) outagePoll))
             = observedIndex outagePoll"
    "postedIndices (snd (checkForNewBlocks (runningMonitor 100) outagePoll))
             = [observedIndex outagePoll]"
    and y: "\<forall>envs'. (\<forall>e \<in> set envs'. observedIndex e = observedIndex outagePoll) \<longrightarrow>
            postedIndices (snd (runPolls
              (fst (checkForNewBlocks (runningMonitor 100) outagePoll)) envs')) = []"
    by blast+
  from y s have z: "postedIndices (snd (runPolls
      (fst (checkForNewBlocks (runningMonitor 100) outagePoll))
      [outagePoll, outagePoll, outagePoll])) = []" by blast
  from x z a b c o show ?thesis by (simp only: simp_thms)
qed

subsection \<open>Errors during a poll\<close>

text \<open>
  Claim C3, as stated: an exception during the poll, a failed read of the farm index
  included, increments the error count by one and does not alter the cursor. It fails on
  the code: with the cursor at 100 and the error count at 0, a poll whose farm-index read
  fails with a transport error ends with the error count still 0 and the cursor at 0.
\<close>

theorem C3_chain_error_not_counted:
  "indexRead rpcDownPoll = Inl ''ECONNRESET'' \<and>
   errorCount (runningMonitor 100) = 0 \<and>
   errorCount (fst (checkForNewBlocks (runningMonitor 100) rpcDownPoll)) = 0 \<and>
   currentBlockIndex (runningMonitor 100) = 100 \<and>
   currentBlockIndex (fst (checkForNewBlocks (runningMonitor 100) rpcDownPoll)) = 0"
  by (simp add: monitor_defs fixture_defs rpcDownPoll_def)

lemma failed_read_not_thrown:
  assumes "realClock env" and "isl (indexRead env) \<or> isl (blockRead env)"
  shows "snd (snd (handleNewBlockDiscovered m (fst (getContractData env)) env)) = None"
proof -
  have b: "block (fst (getContractData env)) = None"
    using assms(2)
    by (auto simp: getContractData_def getIndex_def getBlock_def isl_def split: sum.splits)
  have n: "0 \<le> now env" "now env \<le> 8640000000000000 - 210000"
    using assms(1) by (simp_all add: realClock_def)
  moreover have "now env div 1000 * 1000 \<le> now env" by simp
  moreover have "0 \<le> now env div 1000 * 1000" using n(1) by simp
  ultimately show ?thesis using b
    by (simp add: handleNewBlockDiscovered_def truthyTimestamp_def
          calculateTimingPredictions_def validDate_def Let_def notifyBackend_def
        split: http_reply.splits)
qed

lemma errorCount_reset: "errorCount (resetErrorCount m) = 0"
  by (simp add: resetErrorCount_def)

text \<open>A poll of a running monitor whose chain read fails leaves the monitor running.\<close>

lemma failed_read_keeps_running:
  assumes "\<not> isShuttingDown m" and "realClock env"
    and "isl (indexRead env) \<or> isl (blockRead env)"
  shows "\<not> isShuttingDown (fst (checkForNewBlocks m env)) \<and>
         monitoringInterval (fst (checkForNewBlocks m env)) = monitoringInterval m \<and>
         isMonitoring (fst (checkForNewBlocks m env)) = isMonitoring m \<and>
         errorCount (fst (checkForNewBlocks m env)) = 0"
proof -
  have "snd (snd (handleNewBlockDiscovered m (fst (getContractData env)) env)) = None"
    using failed_read_not_thrown[OF assms(2,3)] .
  then have npf: "\<not> pollThrows m env"
    by (cases "getContractData env") (auto simp: pollThrows_def)
  obtain cd reads where g: "getContractData env = (cd, reads)"
    by (cases "getContractData env")
  show ?thesis
  proof (cases "currentBlockIndex m < index cd")
    case True
    then have "currentBlockIndex m < observedIndex env" using g by (simp add: observedIndex_def)
    from not_pollThrows_step[OF assms(1) this npf] obtain m2 n where
      h: "handleNewBlockDiscovered m (fst (getContractData env)) env = (m2, [Posted n], None)"
      and c: "checkForNewBlocks m env
                = (resetErrorCount m2, snd (getContractData env) @ [Posted n])" by blast
    from handle_cases[of m "fst (getContractData env)" env] h
    have "isShuttingDown m2 = isShuttingDown m" "monitoringInterval m2 = monitoringInterval m"
      "isMonitoring m2 = isMonitoring m" by auto
    with c assms(1) show ?thesis by (simp add: resetErrorCount_flags errorCount_reset)
  next
    case False
    with assms(1) g show ?thesis
      by (simp add: checkForNewBlocks_def resetErrorCount_flags errorCount_reset)
  qed
qed

text \<open>
  Claim C3, amended: for every poll, an exception that escapes the poll body increments
  the error count by one, sends no POST and leaves the cursor unchanged; the poll loop
  continues when the incremented count is still below \<open>maxErrorCount\<close>, and when it has
  reached \<open>maxErrorCount\<close> a monitoring monitor halts (shutdown flag set, timer cleared).
  The code lets such an exception through only from the handling of a new block: under a
  real clock, exactly when the timestamp of the block read lies beyond the range of
  dates. A transport or decode error while reading the farm index or the block entry is
  caught inside the chain reader and is not counted: under a real clock, such a poll of
  a running monitor throws nothing, ends with the error count at 0, and the poll loop
  continues.
\<close>

theorem C3_escaping_exception_counted:
  "(pollThrows m env \<longrightarrow>
      errorCount (fst (checkForNewBlocks m env)) = errorCount m + 1 \<and>
      currentBlockIndex (fst (checkForNewBlocks m env)) = currentBlockIndex m \<and>
      postedIndices (snd (checkForNewBlocks m env)) = [] \<and>
      (errorCount m + 1 < maxErrorCount m \<longrightarrow>
         \<not> isShuttingDown (fst (checkForNewBlocks m env)) \<and>
         monitoringInterval (fst (checkForNewBlocks m env)) = monitoringInterval m \<and>
         isMonitoring (fst (checkForNewBlocks m env)) = isMonitoring m) \<and>
      (maxErrorCount m \<le> errorCount m + 1 \<and> isMonitoring m \<longrightarrow>
         isShuttingDown (fst (checkForNewBlocks m env)) \<and>
         \<not> monitoringInterval (fst (checkForNewBlocks m env)) \<and>
         \<not> isMonitoring (fst (checkForNewBlocks m env)))) \<and>
   (\<not> isShuttingDown m \<and> realClock env \<and> currentBlockIndex m < observedIndex env \<longrightarrow>
      pollThrows m env = (\<not> blockTimestampInRange env)) \<and>
   (\<not> isShuttingDown m \<and> realClock env \<and> (isl (indexRead env) \<or> isl (blockRead env)) \<longrightarrow>
      \<not> pollThrows m env \<and> errorCount (fst (checkForNewBlocks m env)) = 0 \<and>
      \<not> isShuttingDown (fst (checkForNewBlocks m env)) \<and>
      monitoringInterval (fst (checkForNewBlocks m env)) = monitoringInterval m \<and>
      isMonitoring (fst (checkForNewBlocks m env)) = isMonitoring m)"
proof (intro conjI impI)
  assume pf: "pollThrows m env"
  then have n: "\<not> isShuttingDown m" by (simp add: pollThrows_def)
  note step = pollThrows_step[OF pf]
  show "errorCount (fst (checkForNewBlocks m env)) = errorCount m + 1"
    and "currentBlockIndex (fst (checkForNewBlocks m env)) = currentBlockIndex m"
    and "postedIndices (snd (checkForNewBlocks m env)) = []"
    using step
    by (simp_all add: handleMonitoringError_def stopMonitoring_def Let_def
          getContractData_reads)
  {
    assume "errorCount m + 1 < maxErrorCount m"
    then show "\<not> isShuttingDown (fst (checkForNewBlocks m env))"
      and "monitoringInterval (fst (checkForNewBlocks m env)) = monitoringInterval m"
      and "isMonitoring (fst (checkForNewBlocks m env)) = isMonitoring m"
      using step n by (simp_all add: handleMonitoringError_def Let_def)
  }
  {
    assume "maxErrorCount m \<le> errorCount m + 1 \<and> isMonitoring m"
    then show "isShuttingDown (fst (checkForNewBlocks m env))"
      and "\<not> monitoringInterval (fst (checkForNewBlocks m env))"
      and "\<not> isMonitoring (fst (checkForNewBlocks m env))"
      using step by (simp_all add: handleMonitoringError_def stopMonitoring_def Let_def)
  }
next
  assume "\<not> isShuttingDown m \<and> realClock env \<and> currentBlockIndex m < observedIndex env"
  then show "pollThrows m env = (\<not> blockTimestampInRange env)"
    using pollThrows_iff_timestamp by blast
next
  assume a: "\<not> isShuttingDown m \<and> realClock env \<and>
             (isl (indexRead env) \<or> isl (blockRead env))"
  then have "snd (snd (handleNewBlockDiscovered m (fst (getContractData env)) env)) = None"
    using failed_read_not_thrown by blast
  then show "\<not> pollThrows m env"
    by (cases "getContractData env") (auto simp: pollThrows_def)
  from a failed_read_keeps_running[of m env]
  show "errorCount (fst (checkForNewBlocks m env)) = 0"
    and "\<not> isShuttingDown (fst (checkForNewBlocks m env))"
    and "monitoringInterval (fst (checkForNewBlocks m env)) = monitoringInterval m"
    and "isMonitoring (fst (checkForNewBlocks m env)) = isMonitoring m"
    by simp_all
qed

lemma badPoll_first:
  "checkForNewBlocks strictMonitor badPoll =
     (strictMonitor\<lparr>errorCount := 1\<rparr>, [ChainReadIndex, ChainReadBlock 101])"
  by (simp add: monitor_defs fixture_defs strictMonitor_def badPoll_def)

lemma badPoll_throws: "pollThrows strictMonitor badPoll"
  by (simp add: monitor_defs fixture_defs strictMonitor_def badPoll_def)

lemma badPoll_throws_again: "pollThrows (strictMonitor\<lparr>errorCount := 1\<rparr>) badPoll"
  by (simp add: monitor_defs fixture_defs strictMonitor_def badPoll_def)

theorem C3_escaping_exception_counted_witness:
  "pollThrows (runningMonitor 100) badPoll \<and>
   \<not> blockTimestampInRange badPoll \<and>
   errorCount (runningMonitor 100) + 1 < maxErrorCount (runningMonitor 100) \<and>
   errorCount (fst (checkForNewBlocks (runningMonitor 100) badPoll)) = 1 \<and>
   currentBlockIndex (fst (checkForNewBlocks (runningMonitor 100) badPoll)) = 100 \<and>
   \<not> isShuttingDown (fst (checkForNewBlocks (runningMonitor 100) badPoll)) \<and>
   pollThrows (strictMonitor\<lparr>errorCount := 1\<rparr>) badPoll \<and>
   maxErrorCount (strictMonitor\<lparr>errorCount := 1\<rparr>)
     \<le> errorCount (strictMonitor\<lparr>errorCount := 1\<rparr>) + 1 \<and>
   isMonitoring (strictMonitor\<lparr>errorCount := 1\<rparr>) \<and>
   isShuttingDown (fst (checkForNewBlocks (strictMonitor\<lparr>errorCount := 1\<rparr>) badPoll)) \<and>
   \<not> isShuttingDown (runningMonitor 100) \<and> realClock rpcDownPoll \<and>
   isl (indexRead rpcDownPoll) \<and>
   \<not> pollThrows (runningMonitor 100) rpcDownPoll \<and>
   errorCount (fst (checkForNewBlocks (runningMonitor 100) rpcDownPoll)) = 0 \<and>
   \<not> isShuttingDown (fst (checkForNewBlocks (runningMonitor 100) rpcDownPoll))"
proof -
  have a: "pollThrows (runningMonitor 100) badPoll"
    by (simp add: monitor_defs fixture_defs badPoll_def)
  have b: "\<not> isShuttingDown (runningMonitor 100)" "errorCount (runningMonitor 100) = 0"
    "currentBlockIndex (runningMonitor 100) = 100"
    "errorCount (runningMonitor 100) + 1 < maxErrorCount (runningMonitor 100)"
    by (simp_all add: runningMonitor_def)
  have c: "realClock rpcDownPoll" "isl (indexRead rpcDownPoll)"
    by (simp_all add: realClock_def rpcDownPoll_def pollSeeing_def)
  have d: "realClock badPoll" "currentBlockIndex (runningMonitor 100) < observedIndex badPoll"
    by (simp_all add: realClock_def monitor_defs fixture_defs badPoll_def)
  have e: "maxErrorCount (strictMonitor\<lparr>errorCount := 1\<rparr>)
             \<le> errorCount (strictMonitor\<lparr>errorCount := 1\<rparr>) + 1"
    "isMonitoring (strictMonitor\<lparr>errorCount := 1\<rparr>)"
    by (simp_all add: strictMonitor_def runningMonitor_def)
  note f = badPoll_throws_again
  from C3_escaping_exception_counted[of "runningMonitor 100" badPoll]
       C3_escaping_exception_counted[of "strictMonitor\<lparr>errorCount := 1\<rparr>" badPoll]
       C3_escaping_exception_counted[of "runningMonitor 100" rpcDownPoll] a b c d e f
  show ?thesis by simp
qed

subsection \<open>Discovery notifications per index\<close>

text \<open>
  Claim C6, as stated: over every sequence of polls, also across reorg regressions and
  failed chain reads, at most one POST carries a given block index. It fails on the
  code in both cases the claim names: from cursor 3, polls that observe the indices
  5, 4, 5 send two POSTs for index 5; and from cursor 100, with the chain staying at
  index 101, a poll that reads 101, a poll whose farm-index read fails and a poll that
  reads 101 again send two POSTs for index 101.
\<close>

theorem C6_index_notified_twice_after_reorg:
  "postedIndices (snd (runPolls (runningMonitor 3) reorgPolls)) = [5, 5] \<and>
   postedIndices (snd (runPolls (runningMonitor 100) outageAndBack)) = [101, 101]"
  by (simp add: monitor_defs fixture_defs reorgPolls_def outageAndBack_def rpcDownPoll_def)

lemma posts_above:
  "\<forall>env \<in> set envs. b \<le> observedIndex env \<Longrightarrow> b \<le> currentBlockIndex m \<Longrightarrow>
   \<forall>x \<in> set (postedIndices (snd (runPolls m envs))). b < x"
proof (induction envs arbitrary: m)
  case Nil
  then show ?case by simp
next
  case (Cons env envs)
  obtain m1 evs where c: "checkForNewBlocks m env = (m1, evs)"
    by (cases "checkForNewBlocks m env")
  obtain m2 evs' where r: "runPolls m1 envs = (m2, evs')" by (cases "runPolls m1 envs")
  from poll_step[OF c] Cons.prems have b1: "b \<le> currentBlockIndex m1" and
     p1: "\<forall>x \<in> set (postedIndices evs). b < x" by auto
  from Cons.IH[of m1] Cons.prems b1 r have "\<forall>x \<in> set (postedIndices evs'). b < x" by auto
  with p1 c r show ?case by (auto simp: postedIndices_append)
qed

lemma posts_increasing:
  "sorted (map observedIndex envs) \<Longrightarrow>
   sorted_wrt (<) (postedIndices (snd (runPolls m envs)))"
proof (induction envs arbitrary: m)
  case Nil
  then show ?case by simp
next
  case (Cons env envs)
  obtain m1 evs where c: "checkForNewBlocks m env = (m1, evs)"
    by (cases "checkForNewBlocks m env")
  obtain m2 evs' where r: "runPolls m1 envs = (m2, evs')" by (cases "runPolls m1 envs")
  from Cons.prems have s: "sorted (map observedIndex envs)" and
     ge: "\<forall>e \<in> set envs. observedIndex env \<le> observedIndex e" by auto
  from Cons.IH[OF s, of m1] r have ih: "sorted_wrt (<) (postedIndices evs')" by simp
  from poll_step[OF c] show ?case
  proof
    assume "postedIndices evs = [] \<and>
      (currentBlockIndex m1 = currentBlockIndex m \<or> currentBlockIndex m1 = observedIndex env)"
    with ih c r show ?thesis by (simp add: postedIndices_append)
  next
    assume a: "postedIndices evs = [observedIndex env] \<and>
      currentBlockIndex m < observedIndex env \<and> currentBlockIndex m1 = observedIndex env"
    with posts_above[OF ge, of m1] r
    have "\<forall>x \<in> set (postedIndices evs'). observedIndex env < x" by simp
    with a ih c r show ?thesis by (simp add: postedIndices_append)
  qed
qed

text \<open>
  Claim C6, amended: take the index the chain reader hands to each poll, which is the
  farm index read, or 0 when the read of the farm index fails. For every sequence of
  polls in which that index never decreases from one poll to the next (so no reorg
  regression, and no failed farm-index read after a poll that saw a positive index), the
  block indices of the POSTs sent are strictly increasing, so no index is notified twice.
\<close>

theorem C6_at_most_once_without_regression:
  assumes "sorted (map observedIndex envs)"
  shows "sorted_wrt (<) (postedIndices (snd (runPolls m envs))) \<and>
         distinct (postedIndices (snd (runPolls m envs)))"
  using posts_increasing[OF assms, of m] by (simp add: strict_sorted_iff)

theorem C6_at_most_once_without_regression_witness:
  "sorted (map observedIndex steadyPolls) \<and>
   postedIndices (snd (runPolls (runningMonitor 3) steadyPolls)) = [5, 6] \<and>
   distinct (postedIndices (snd (runPolls (runningMonitor 3) steadyPolls)))"
proof -
  have a: "sorted (map observedIndex steadyPolls)"
    by (simp add: monitor_defs fixture_defs steadyPolls_def)
  have b: "postedIndices (snd (runPolls (runningMonitor 3) steadyPolls)) = [5, 6]"
    by (simp add: monitor_defs fixture_defs steadyPolls_def)
  from C6_at_most_once_without_regression[OF a, of "runningMonitor 3"] a b
  show ?thesis by simp
qed

subsection \<open>Halt after the error ceiling\<close>

lemma rpcDown_first:
  "checkForNewBlocks (runningMonitor 100) rpcDownPoll = (runningMonitor 0, [ChainReadIndex])"
  by (simp add: monitor_defs fixture_defs rpcDownPoll_def)

lemma rpcDown_again:
  "checkForNewBlocks (runningMonitor 0) rpcDownPoll = (runningMonitor 0, [ChainReadIndex])"
  by (simp add: monitor_defs fixture_defs rpcDownPoll_def)

lemma rpcDown_repeated:
  "runPolls (runningMonitor 0) (replicate n rpcDownPoll)
     = (runningMonitor 0, replicate n ChainReadIndex)"
  by (induction n) (simp_all add: rpcDown_again)

lemma rpcDownTen_run:
  "runPolls (runningMonitor 100) rpcDownTen = (runningMonitor 0, replicate 10 ChainReadIndex)"
proof -
  have "runPolls (runningMonitor 100) (replicate (Suc n) rpcDownPoll)
          = (runningMonitor 0, replicate (Suc n) ChainReadIndex)" for n
    by (simp add: rpcDown_first rpcDown_repeated)
  from this[of 9] show ?thesis by (simp add: rpcDownTen_def)
qed

text \<open>
  Claim C7, as stated: after \<open>MaxErrorCount\<close> consecutive failing polls the monitor is
  halted and reads the chain no more. It fails on the code for the failing polls the
  specification means, those whose chain read fails: with the ceiling at 10, ten polls
  in a row whose farm-index read fails with a transport error leave the error count at
  0, the monitor monitoring with its timer armed and the shutdown flag unset, and the
  eleventh poll reads the chain again.
\<close>

theorem C7_rpc_errors_never_halt:
  "maxErrorCount (runningMonitor 100) = 10 \<and> length rpcDownTen = 10 \<and>
   rpcDownTen = replicate 10 rpcDownPoll \<and>
   indexRead rpcDownPoll = Inl ''ECONNRESET'' \<and>
   errorCount (fst (runPolls (runningMonitor 100) rpcDownTen)) = 0 \<and>
   isMonitoring (fst (runPolls (runningMonitor 100) rpcDownTen)) \<and>
   monitoringInterval (fst (runPolls (runningMonitor 100) rpcDownTen)) \<and>
   \<not> isShuttingDown (fst (runPolls (runningMonitor 100) rpcDownTen)) \<and>
   chainReads (snd (runPolls (runningMonitor 100) rpcDownTen)) = 10 \<and>
   chainReads (snd (runPolls (fst (runPolls (runningMonitor 100) rpcDownTen))
      [rpcDownPoll])) = 1"
proof -
  have r: "chainReads (replicate n ChainReadIndex) = n" for n by (induction n) simp_all
  have i: "indexRead rpcDownPoll = Inl ''ECONNRESET''"
    by (simp add: rpcDownPoll_def pollSeeing_def)
  have f: "maxErrorCount (runningMonitor 100) = 10" "errorCount (runningMonitor 0) = 0"
    "isMonitoring (runningMonitor 0)" "monitoringInterval (runningMonitor 0)"
    "\<not> isShuttingDown (runningMonitor 0)"
    by (simp_all add: runningMonitor_def)
  have l: "length rpcDownTen = 10" "rpcDownTen = replicate 10 rpcDownPoll"
    by (simp_all add: rpcDownTen_def)
  show ?thesis
    unfolding rpcDownTen_run using r[of 10] i f l by (simp add: rpcDown_again)
qed

lemma halted_stays: "isShuttingDown m \<Longrightarrow> runPolls m envs = (m, [])"
  by (induction envs) (auto simp: checkForNewBlocks_def)

lemma failing_run_halts:
  "envs \<noteq> [] \<Longrightarrow> allThrow m envs \<Longrightarrow> isMonitoring m \<Longrightarrow>
   maxErrorCount m \<le> errorCount m + length envs \<Longrightarrow>
   isShuttingDown (fst (runPolls m envs)) \<and> \<not> monitoringInterval (fst (runPolls m envs)) \<and>
   \<not> isMonitoring (fst (runPolls m envs))"
proof (induction envs arbitrary: m)
  case Nil
  then show ?case by simp
next
  case (Cons env envs)
  from Cons.prems have pf: "pollThrows m env" by simp
  let ?m1 = "handleMonitoringError m"
  have step: "checkForNewBlocks m env = (?m1, snd (getContractData env))"
    using pollThrows_step[OF pf] .
  have run: "fst (runPolls m (env # envs)) = fst (runPolls ?m1 envs)"
    using step by (simp split: prod.splits)
  show ?case
  proof (cases "maxErrorCount m \<le> errorCount m + 1")
    case True
    with Cons.prems(3)
    have h: "isShuttingDown ?m1 \<and> \<not> monitoringInterval ?m1 \<and> \<not> isMonitoring ?m1"
      by (simp add: handleMonitoringError_def stopMonitoring_def Let_def)
    then have "runPolls ?m1 envs = (?m1, [])" using halted_stays by blast
    with run h show ?thesis by simp
  next
    case False
    then have m1: "?m1 = m\<lparr>errorCount := errorCount m + 1\<rparr>"
      by (simp add: handleMonitoringError_def Let_def)
    from False Cons.prems(4) have ne: "envs \<noteq> []" by auto
    from Cons.prems(2) step have af: "allThrow ?m1 envs" by simp
    have "isShuttingDown (fst (runPolls ?m1 envs)) \<and>
          \<not> monitoringInterval (fst (runPolls ?m1 envs)) \<and>
          \<not> isMonitoring (fst (runPolls ?m1 envs))"
      using Cons.IH[OF ne af] Cons.prems(3,4) m1 by simp
    with run show ?thesis by simp
  qed
qed

text \<open>
  Claim C7, amended: after \<open>maxErrorCount\<close> consecutive polls in each of which an
  exception escapes the poll body and reaches the error handler of the poll, a monitoring
  Block Monitor with a positive ceiling is halted: the shutdown flag is set, the interval
  timer is cleared, the monitor no longer reports monitoring, and whatever polls are
  still called afterwards perform no chain read. Polls whose chain read fails with a
  transport or decode error are not such polls (the chain reader catches the error and
  the poll counts as successful); the code lets an exception escape only while it handles
  a new block whose timestamp lies beyond the range of dates.
\<close>

theorem C7_halt_after_max_errors:
  assumes "isMonitoring m" and "0 < maxErrorCount m" and "length envs = maxErrorCount m"
    and "allThrow m envs"
  shows "isShuttingDown (fst (runPolls m envs)) \<and>
         \<not> monitoringInterval (fst (runPolls m envs)) \<and>
         \<not> isMonitoring (fst (runPolls m envs)) \<and>
         (\<forall>later. chainReads (snd (runPolls (fst (runPolls m envs)) later)) = 0)"
proof -
  from assms(2,3) have ne: "envs \<noteq> []" by auto
  have h: "isShuttingDown (fst (runPolls m envs)) \<and>
           \<not> monitoringInterval (fst (runPolls m envs)) \<and>
           \<not> isMonitoring (fst (runPolls m envs))"
    using failing_run_halts[OF ne assms(4) assms(1)] assms(3) by simp
  then have "\<forall>later. runPolls (fst (runPolls m envs)) later = (fst (runPolls m envs), [])"
    using halted_stays by blast
  with h show ?thesis by simp
qed

theorem C7_halt_after_max_errors_witness:
  "isMonitoring strictMonitor \<and> 0 < maxErrorCount strictMonitor \<and>
   length [badPoll, badPoll] = maxErrorCount strictMonitor \<and>
   allThrow strictMonitor [badPoll, badPoll] \<and>
   chainReads (snd (runPolls strictMonitor [badPoll, badPoll])) = 4 \<and>
   isShuttingDown (fst (runPolls strictMonitor [badPoll, badPoll])) \<and>
   \<not> monitoringInterval (fst (runPolls strictMonitor [badPoll, badPoll])) \<and>
   chainReads (snd (runPolls (fst (runPolls strictMonitor [badPoll, badPoll]))
      [stalePoll, outagePoll])) = 0"
proof -
  have a: "isMonitoring strictMonitor" by (simp add: strictMonitor_def runningMonitor_def)
  have b: "0 < maxErrorCount strictMonitor" by (simp add: strictMonitor_def)
  have c: "length [badPoll, badPoll] = maxErrorCount strictMonitor"
    by (simp add: strictMonitor_def)
  have d: "allThrow strictMonitor [badPoll, badPoll]"
    using badPoll_throws_again by (simp add: badPoll_first badPoll_throws)
  have g: "snd (getContractData badPoll) = [ChainReadIndex, ChainReadBlock 101]"
    by (simp add: getContractData_def getIndex_def getBlock_def badPoll_def pollSeeing_def)
  have e: "chainReads (snd (runPolls strictMonitor [badPoll, badPoll])) = 4"
    using pollThrows_step[OF badPoll_throws_again] by (simp add: badPoll_first g)
  from C7_halt_after_max_errors[OF a b c d] a b c d e show ?thesis by blast
qed

subsection \<open>The plantable window\<close>

text \<open>
  Claim C9, as stated: every new-block discovery is notified and advances the cursor,
  whatever the age of the block. It fails on the code: with the cursor at 100, a poll
  that reads index 101 and a block whose timestamp (9000000000000 s) lies beyond the
  range of dates sends no POST and leaves the cursor at 100, because the timing
  predictions of the block cannot be rendered and the exception stops the handling
  before the state is updated.
\<close>

theorem C9_unrenderable_block_not_notified:
  "currentBlockIndex (runningMonitor 100) = 100 \<and> observedIndex badPoll = 101 \<and>
   \<not> isShuttingDown (runningMonitor 100) \<and>
   timestamp (blockS1 farFuture) = Some 9000000000000 \<and>
   blockRead badPoll = Inr (blockS1 farFuture) \<and>
   postedIndices (snd (checkForNewBlocks (runningMonitor 100) badPoll)) = [] \<and>
   currentBlockIndex (fst (checkForNewBlocks (runningMonitor 100) badPoll)) = 100"
  by (simp add: monitor_defs fixture_defs badPoll_def)

lemma age_whole_seconds: "(c - int t * 1000) div 1000 = c div 1000 - int t"
proof -
  have "c - int t * 1000 = c + (- int t) * 1000" by simp
  then show ?thesis
    by (metis div_mult_self1 zero_neq_numeral add.commute uminus_add_conv_diff)
qed

lemma handle_notification:
  assumes "handleNewBlockDiscovered m cd env = (m2, [Posted n], None)"
  shows "plantable n = (30 \<le> bd_blockAge n \<and> bd_blockAge n < 240) \<and>
         bd_blockAge n =
           (case block cd of
              None \<Rightarrow> 0
            | Some k \<Rightarrow> (case timestamp k of
                           None \<Rightarrow> 0
                         | Some t \<Rightarrow> if t = 0 then 0 else now env div 1000 - int t))"
  using assms
  by (auto simp: handleNewBlockDiscovered_def notifyBackend_def buildNotification_def
        isPlantable_def truthyTimestamp_def age_whole_seconds Let_def
      split: sum.splits http_reply.splits option.splits if_splits)

text \<open>
  Claim C9, amended: for every new-block discovery (observed index above the cursor, in
  a running monitor, under a real clock) whose block timestamp is missing or at most
  8639999999790 seconds, so that the block and its timing predictions are valid dates,
  exactly one notification is sent after the chain reads; its block age is the clock in
  whole seconds minus the block timestamp, and zero when the block or its timestamp is
  missing (a timestamp of 0 is falsy and counts as missing); its \<open>plantable\<close> flag is
  true iff the age is at least 30 and less than 240; and the cursor is advanced to the
  observed index whatever the age is.
\<close>

theorem C9_plantable_window:
  assumes "\<not> isShuttingDown m" and "currentBlockIndex m < observedIndex env"
    and "realClock env" and "blockTimestampInRange env"
  shows "\<exists>n. snd (checkForNewBlocks m env) = snd (getContractData env) @ [Posted n] \<and>
           blockIndex n = observedIndex env \<and>
           bd_blockAge n =
             (case block (fst (getContractData env)) of
                None \<Rightarrow> 0
              | Some k \<Rightarrow> (case timestamp k of
                             None \<Rightarrow> 0
                           | Some t \<Rightarrow> if t = 0 then 0 else now env div 1000 - int t)) \<and>
           plantable n = (30 \<le> bd_blockAge n \<and> bd_blockAge n < 240) \<and>
           currentBlockIndex (fst (checkForNewBlocks m env)) = observedIndex env"
proof -
  have np: "\<not> pollThrows m env"
    using pollThrows_iff_timestamp[OF assms(3) assms(1) assms(2)] assms(4) by simp
  from not_pollThrows_step[OF assms(1) assms(2) np] obtain m2 n where
    h: "handleNewBlockDiscovered m (fst (getContractData env)) env = (m2, [Posted n], None)"
    and c: "checkForNewBlocks m env
              = (resetErrorCount m2, snd (getContractData env) @ [Posted n])"
    by blast
  from handle_cases[of m "fst (getContractData env)" env] h
  have k: "currentBlockIndex m2 = observedIndex env" "blockIndex n = observedIndex env"
    by (auto simp: observedIndex_def)
  from handle_notification[OF h] c k show ?thesis
    by (simp add: resetErrorCount_def)
qed

theorem C9_plantable_window_witness:
  "\<not> isShuttingDown (runningMonitor 100) \<and>
   currentBlockIndex (runningMonitor 100) < observedIndex stalePoll \<and>
   realClock stalePoll \<and> blockTimestampInRange stalePoll \<and>
   (\<exists>n. snd (checkForNewBlocks (runningMonitor 100) stalePoll)
           = [ChainReadIndex, ChainReadBlock 101, Posted n] \<and>
         blockIndex n = 101 \<and> bd_blockAge n = 400 \<and> \<not> plantable n) \<and>
   currentBlockIndex (fst (checkForNewBlocks (runningMonitor 100) stalePoll)) = 101"
proof -
  have a: "\<not> isShuttingDown (runningMonitor 100)" by (simp add: runningMonitor_def)
  have b: "currentBlockIndex (runningMonitor 100) < observedIndex stalePoll"
    by (simp add: monitor_defs fixture_defs stalePoll_def)
  have g: "getContractData stalePoll =
             (\<lparr>index = 101, block = Some (blockS1 1700000000)\<rparr>,
              [ChainReadIndex, ChainReadBlock 101])"
    by (simp add: getContractData_def getIndex_def getBlock_def stalePoll_def pollSeeing_def)
  have o: "observedIndex stalePoll = 101" using g by (simp add: observedIndex_def)
  have t: "now stalePoll = 1700000400000" "timestamp (blockS1 1700000000) = Some 1700000000"
    by (simp_all add: stalePoll_def pollSeeing_def blockS1_def)
  have c: "realClock stalePoll" using t by (simp add: realClock_def)
  have d: "blockTimestampInRange stalePoll" using g t by (simp add: blockTimestampInRange_def)
  from C9_plantable_window[OF a b c d] obtain n where
    "snd (checkForNewBlocks (runningMonitor 100) stalePoll)
       = snd (getContractData stalePoll) @ [Posted n]"
    "blockIndex n = observedIndex stalePoll"
    "bd_blockAge n =
       (case block (fst (getContractData stalePoll)) of
          None \<Rightarrow> 0
        | Some k \<Rightarrow> (case timestamp k of
                       None \<Rightarrow> 0
                     | Some t \<Rightarrow> if t = 0 then 0 else now stalePoll div 1000 - int t))"
    "plantable n = (30 \<le> bd_blockAge n \<and> bd_blockAge n < 240)"
    "currentBlockIndex (fst (checkForNewBlocks (runningMonitor 100) stalePoll))
       = observedIndex stalePoll"
    by blast
  then have "snd (checkForNewBlocks (runningMonitor 100) stalePoll)
           = [ChainReadIndex, ChainReadBlock 101, Posted n] \<and>
         blockIndex n = 101 \<and> bd_blockAge n = 400 \<and> \<not> plantable n"
    and "currentBlockIndex (fst (checkForNewBlocks (runningMonitor 100) stalePoll)) = 101"
    using g o t by simp_all
  with a b c d show ?thesis by blast
qed

section \<open>Properties of the work submission service\<close>

lemma includes_sublist: "includes_str s t = sublist t s"
  by (induction s) (auto simp: sublist_Cons_right)

lemma lowered_tokens:
  "map toLowerCase retryableErrors =
     [''not_found'', ''timeout'', ''econnreset'', ''enotfound'', ''etimedout'',
      ''fetch failed'', ''network error'']"
  by code_simp

lemma isRetryableError_tokens:
  "isRetryableError msg =
     (\<exists>t \<in> set [''not_found'', ''timeout'', ''econnreset'', ''enotfound'', ''etimedout'',
                 ''fetch failed'', ''network error'']. sublist t (toLowerCase msg))"
proof -
  have "isRetryableError msg =
          (\<exists>t \<in> set (map toLowerCase retryableErrors). sublist t (toLowerCase msg))"
    by (simp add: isRetryableError_def list_ex_iff includes_sublist)
  then show ?thesis by (simp only: lowered_tokens)
qed

lemma submitLoop_last:
  "submitLoop rl 3 =
     (case rl 3 of
        SimulationError e \<Rightarrow>
          (\<lparr>sr_success = False, transactionHash = None,
            sr_error = Some (''Simulation failed: '' @ e)\<rparr>, [Attempt 3])
      | Accepted h \<Rightarrow>
          (\<lparr>sr_success = True, transactionHash = Some h, sr_error = None\<rparr>, [Attempt 3])
      | Threw errorMessage \<Rightarrow>
          (\<lparr>sr_success = False, transactionHash = None, sr_error = Some errorMessage\<rparr>,
           [Attempt 3]))"
  by (subst submitLoop.simps) (simp add: maxRetries_def split: attempt_outcome.splits)

lemma submitLoop_before:
  "k = 1 \<or> k = 2 \<Longrightarrow>
   submitLoop rl k =
     (case rl k of
        SimulationError e \<Rightarrow>
          (\<lparr>sr_success = False, transactionHash = None,
            sr_error = Some (''Simulation failed: '' @ e)\<rparr>, [Attempt k])
      | Accepted h \<Rightarrow>
          (\<lparr>sr_success = True, transactionHash = Some h, sr_error = None\<rparr>, [Attempt k])
      | Threw errorMessage \<Rightarrow>
          if \<not> isRetryableError errorMessage
          then (\<lparr>sr_success = False, transactionHash = None, sr_error = Some errorMessage\<rparr>,
                [Attempt k])
          else (fst (submitLoop rl (k + 1)),
                Attempt k # Sleep 2000 # snd (submitLoop rl (k + 1))))"
  by (subst submitLoop.simps)
     (auto simp: maxRetries_def retryDelay_def split: attempt_outcome.splits prod.splits)


lemma submitLoop_stop:
  assumes "k = 1 \<or> k = 2 \<or> k = 3" and "\<not> retryableAt rl k \<or> k = 3"
  shows "snd (submitLoop rl k) = [Attempt k] \<and>
         sr_success (fst (submitLoop rl k)) = (\<exists>h. rl k = Accepted h)"
proof (cases "k = 3")
  case True
  then show ?thesis by (cases "rl 3") (simp_all add: submitLoop_last)
next
  case False
  with assms have k: "k = 1 \<or> k = 2" and n: "\<not> retryableAt rl k" by auto
  show ?thesis using n
    by (cases "rl k") (simp_all add: submitLoop_before[OF k] retryableAt_def)
qed

lemma submitLoop_retry:
  assumes "k = 1 \<or> k = 2" and "retryableAt rl k"
  shows "submitLoop rl k =
           (fst (submitLoop rl (k + 1)), Attempt k # Sleep 2000 # snd (submitLoop rl (k + 1)))"
  using assms(2)
  by (cases "rl k") (simp_all add: submitLoop_before[OF assms(1)] retryableAt_def)

lemma submitWork_cases:
  "(\<not> retryableAt rl 1 \<and> snd (submitWork rl) = [Attempt 1] \<and>
      sr_success (fst (submitWork rl)) = (\<exists>h. rl 1 = Accepted h)) \<or>
   (retryableAt rl 1 \<and> \<not> retryableAt rl 2 \<and>
      snd (submitWork rl) = [Attempt 1, Sleep 2000, Attempt 2] \<and>
      sr_success (fst (submitWork rl)) = (\<exists>h. rl 2 = Accepted h)) \<or>
   (retryableAt rl 1 \<and> retryableAt rl 2 \<and>
      snd (submitWork rl) = [Attempt 1, Sleep 2000, Attempt 2, Sleep 2000, Attempt 3] \<and>
      sr_success (fst (submitWork rl)) = (\<exists>h. rl 3 = Accepted h))"
proof (cases "retryableAt rl 1")
  case False
  with submitLoop_stop[of 1 rl] show ?thesis by (simp add: submitWork_def)
next
  case r1: True
  have s1: "submitWork rl =
              (fst (submitLoop rl 2), Attempt 1 # Sleep 2000 # snd (submitLoop rl 2))"
    using submitLoop_retry[of 1 rl] r1 by (simp add: submitWork_def numeral_2_eq_2)
  show ?thesis
  proof (cases "retryableAt rl 2")
    case False
    with submitLoop_stop[of 2 rl] r1 s1 show ?thesis by simp
  next
    case r2: True
    have s2: "submitLoop rl 2 =
                (fst (submitLoop rl 3), Attempt 2 # Sleep 2000 # snd (submitLoop rl 3))"
      using submitLoop_retry[of 2 rl] r2 by (simp add: numeral_3_eq_3 numeral_2_eq_2)
    from submitLoop_stop[of 3 rl] r1 r2 s1 s2 show ?thesis by simp
  qed
qed

lemma upto_one: "(\<forall>k::nat. 1 \<le> k \<and> k \<le> 1 \<and> R k \<longrightarrow> P k) = (R 1 \<longrightarrow> P 1)"
proof -
  have "k = 1" if "1 \<le> k" "k \<le> 1" for k :: nat using that by simp
  then show ?thesis by auto
qed

lemma upto_two:
  "(\<forall>k::nat. 1 \<le> k \<and> k \<le> 2 \<and> R k \<longrightarrow> P k) = ((R 1 \<longrightarrow> P 1) \<and> (R 2 \<longrightarrow> P 2))"
proof -
  have "k = 1 \<or> k = 2" if "1 \<le> k" "k \<le> 2" for k :: nat using that by auto
  then show ?thesis by auto
qed

lemma upto_three:
  "(\<forall>k::nat. 1 \<le> k \<and> k \<le> 3 \<and> R k \<longrightarrow> P k) =
   ((R 1 \<longrightarrow> P 1) \<and> (R 2 \<longrightarrow> P 2) \<and> (R 3 \<longrightarrow> P 3))"
proof -
  have "k = 1 \<or> k = 2 \<or> k = 3" if "1 \<le> k" "k \<le> 3" for k :: nat using that by auto
  then show ?thesis by auto
qed

lemma retryableAt_iff:
  "retryableAt rl k = (\<exists>msg. rl k = Threw msg \<and> isRetryableError msg)"
  by (auto simp: retryableAt_def split: attempt_outcome.splits)

text \<open>
  Claim C4: every call of \<open>submitWork\<close> makes between one and three attempts, numbered
  from 1, with one sleep of 2000 ms between two successive attempts and nothing else in
  between; an attempt before the third is followed by another one iff it threw an error
  whose message is retryable; an attempt whose simulation reports an error, and an attempt
  that throws a message that is not retryable, is the last one and the result has
  \<open>success = false\<close>; the result is a success iff the last attempt was accepted by the
  relay. A message is retryable iff its lower-case form contains one of the seven tokens.
  Here \<open>rl k\<close> is the outcome the environment gives to attempt \<open>k\<close>.
\<close>

theorem C4_submit_retry_policy:
  "(let n = length (attemptsMade (snd (submitWork rl)))
    in 1 \<le> n \<and> n \<le> 3 \<and>
       snd (submitWork rl) = attemptsWithSleeps 2000 1 n \<and>
       (\<forall>k. 1 \<le> k \<and> k \<le> n \<and> k < 3 \<longrightarrow>
          (k < n) = (\<exists>msg. rl k = Threw msg \<and> isRetryableError msg)) \<and>
       (\<forall>k. 1 \<le> k \<and> k \<le> n \<and> (\<exists>e. rl k = SimulationError e) \<longrightarrow>
          k = n \<and> \<not> sr_success (fst (submitWork rl))) \<and>
       (\<forall>k. 1 \<le> k \<and> k \<le> n \<and> (\<exists>msg. rl k = Threw msg \<and> \<not> isRetryableError msg) \<longrightarrow>
          k = n \<and> \<not> sr_success (fst (submitWork rl))) \<and>
       sr_success (fst (submitWork rl)) = (\<exists>h. rl n = Accepted h)) \<and>
   isRetryableError message =
     (\<exists>t \<in> set [''not_found'', ''timeout'', ''econnreset'', ''enotfound'', ''etimedout'',
                 ''fetch failed'', ''network error'']. sublist t (toLowerCase message))"
proof -
  have *: "(let n = length (attemptsMade (snd (submitWork rl)))
    in 1 \<le> n \<and> n \<le> 3 \<and>
       snd (submitWork rl) = attemptsWithSleeps 2000 1 n \<and>
       (\<forall>k. 1 \<le> k \<and> k \<le> n \<and> k < 3 \<longrightarrow> (k < n) = retryableAt rl k) \<and>
       (\<forall>k. 1 \<le> k \<and> k \<le> n \<and> (\<exists>e. rl k = SimulationError e) \<longrightarrow>
          k = n \<and> \<not> sr_success (fst (submitWork rl))) \<and>
       (\<forall>k. 1 \<le> k \<and> k \<le> n \<and> (\<exists>msg. rl k = Threw msg \<and> \<not> isRetryableError msg) \<longrightarrow>
          k = n \<and> \<not> sr_success (fst (submitWork rl))) \<and>
       sr_success (fst (submitWork rl)) = (\<exists>h. rl n = Accepted h))"
    using submitWork_cases[of rl]
  proof (elim disjE conjE)
    assume a: "\<not> retryableAt rl 1" "snd (submitWork rl) = [Attempt 1]"
      "sr_success (fst (submitWork rl)) = (\<exists>h. rl 1 = Accepted h)"
    have n: "length (attemptsMade (snd (submitWork rl))) = 1" using a by simp
    show ?thesis unfolding Let_def n upto_one using a
      by (auto simp: retryableAt_iff)
  next
    assume a: "retryableAt rl 1" "\<not> retryableAt rl 2"
      "snd (submitWork rl) = [Attempt 1, Sleep 2000, Attempt 2]"
      "sr_success (fst (submitWork rl)) = (\<exists>h. rl 2 = Accepted h)"
    have n: "length (attemptsMade (snd (submitWork rl))) = 2" using a by simp
    have t: "attemptsWithSleeps 2000 1 2 = [Attempt 1, Sleep 2000, Attempt 2]"
      by (simp add: numeral_2_eq_2)
    show ?thesis unfolding Let_def n upto_two t using a
      by (auto simp: retryableAt_iff)
  next
    assume a: "retryableAt rl 1" "retryableAt rl 2"
      "snd (submitWork rl) = [Attempt 1, Sleep 2000, Attempt 2, Sleep 2000, Attempt 3]"
      "sr_success (fst (submitWork rl)) = (\<exists>h. rl 3 = Accepted h)"
    have n: "length (attemptsMade (snd (submitWork rl))) = 3" using a by simp
    have t: "attemptsWithSleeps 2000 1 3 = [Attempt 1, Sleep 2000, Attempt 2, Sleep 2000, Attempt 3]"
      by (simp add: numeral_3_eq_3 numeral_2_eq_2)
    show ?thesis unfolding Let_def n upto_three t using a
      by (auto simp: retryableAt_iff)
  qed
  show ?thesis using * isRetryableError_tokens[of message]
    unfolding retryableAt_iff by blast
qed

lemma relayS5_run:
  "snd (submitWork relayS5) = [Attempt 1, Sleep 2000, Attempt 2, Sleep 2000, Attempt 3]"
proof -
  have r: "isRetryableError ''fetch failed''" by code_simp
  have "retryableAt relayS5 1" "retryableAt relayS5 2"
    using r by (simp_all add: retryableAt_def relayS5_def)
  then show ?thesis using submitWork_cases[of relayS5] by auto
qed

lemma relayS7_run: "snd (submitWork relayS7) = [Attempt 1]"
proof -
  have "\<not> retryableAt relayS7 1" by (simp add: retryableAt_def relayS7_def)
  then show ?thesis using submitWork_cases[of relayS7] by auto
qed

theorem C4_submit_retry_policy_witness:
  "snd (submitWork relayS5) = [Attempt 1, Sleep 2000, Attempt 2, Sleep 2000, Attempt 3] \<and>
   length (attemptsMade (snd (submitWork relayS5))) = 3 \<and>
   relayS5 1 = Threw ''fetch failed'' \<and> isRetryableError ''fetch failed'' \<and>
   sublist ''fetch failed'' (toLowerCase ''fetch failed'') \<and>
   sr_success (fst (submitWork relayS5)) \<and>
   snd (submitWork relayS7) = [Attempt 1] \<and>
   relayS7 1 = SimulationError ''Error(Contract, #13)'' \<and>
   \<not> isRetryableError ''Error(Contract, #13)'' \<and>
   \<not> sr_success (fst (submitWork relayS7))"
proof -
  have a: "length (attemptsMade (snd (submitWork relayS5))) = 3" by (simp add: relayS5_run)
  have b: "length (attemptsMade (snd (submitWork relayS7))) = 1" by (simp add: relayS7_run)
  have c: "relayS5 1 = Threw ''fetch failed''" "relayS5 3 = Accepted ''BBB''"
    "relayS7 1 = SimulationError ''Error(Contract, #13)''"
    by (simp_all add: relayS5_def relayS7_def)
  have d: "sublist ''fetch failed'' (toLowerCase ''fetch failed'')"
    unfolding includes_sublist[symmetric] by code_simp
  have e: "\<not> isRetryableError ''Error(Contract, #13)''" by code_simp
  from C4_submit_retry_policy[of relayS5 "''fetch failed''"]
  have 1: "snd (submitWork relayS5) = attemptsWithSleeps 2000 1 3"
    and 2: "sr_success (fst (submitWork relayS5))"
    and 3: "isRetryableError ''fetch failed''"
    unfolding Let_def a using c d by auto
  from C4_submit_retry_policy[of relayS7 "''fetch failed''"]
  have 4: "snd (submitWork relayS7) = attemptsWithSleeps 2000 1 1"
    and 5: "\<not> sr_success (fst (submitWork relayS7))"
    unfolding Let_def b using c by auto
  from 1 2 3 4 5 a c d e show ?thesis by (simp add: numeral_3_eq_3)
qed

section \<open>Properties of the Work Manager and the Pool Coordinator\<close>

lemma minedResult_fields [simp]:
  "farmerId (minedResult wr out t n st c e) = wr_farmerId wr"
  "custodialWallet (minedResult wr out t n st c e) = wr_custodialWallet wr"
  "status (minedResult wr out t n st c e) = st"
  "compensationRequired (minedResult wr out t n st c e) = c"
  "attempts (minedResult wr out t n st c e) = n"
  by (simp_all add: minedResult_def)

lemma executeWorkForFarmer_result:
  "farmerId (fst (executeWorkForFarmer env w b e wr)) = wr_farmerId wr \<and>
   custodialWallet (fst (executeWorkForFarmer env w b e wr)) = wr_custodialWallet wr \<and>
   status (fst (executeWorkForFarmer env w b e wr)) \<noteq> recovered \<and>
   compensationCorrect (fst (executeWorkForFarmer env w b e wr))"
  by (simp add: executeWorkForFarmer_def compensationCorrect_def Let_def
      split: prod.splits miner_run.splits option.splits)

lemma executeWorkWithParams_result:
  "fst (executeWorkWithParams env w b e wr c a) = Inr r \<Longrightarrow>
   farmerId r = wr_farmerId wr \<and> custodialWallet r = wr_custodialWallet wr \<and>
   status r \<noteq> recovered \<and> compensationCorrect r \<and> attempts r = a"
  by (auto simp: executeWorkWithParams_def compensationCorrect_def Let_def
      split: prod.splits miner_run.splits option.splits if_splits)

lemma recoveryLoop_result:
  "fst (recoveryLoop env w b e wr k) = Some r \<Longrightarrow>
   farmerId r = wr_farmerId wr \<and> custodialWallet r = wr_custodialWallet wr \<and>
   status r = recovered \<and> compensationCorrect r"
proof (induction env w b e wr k rule: recoveryLoop.induct)
  case (1 env w b e wr k)
  show ?case
  proof (cases "k \<le> MAX_RECOVERY_ATTEMPTS")
    case False
    with "1.prems" show ?thesis by (simp add: recoveryLoop.simps[of env w b e wr k])
  next
    case True
    obtain res w1 where x: "executeWorkWithParams env w b e wr (NONCE_COUNT + k * 1000000) (k + 1) = (res, w1)"
      by (cases "executeWorkWithParams env w b e wr (NONCE_COUNT + k * 1000000) (k + 1)")
    show ?thesis
    proof (cases res)
      case (Inl msg)
      with True x "1.prems" have "fst (recoveryLoop env w1 b e wr (k + 1)) = Some r"
        by (simp add: recoveryLoop.simps[of env w b e wr k])
      with "1.IH"(1)[OF True refl x[symmetric] Inl] show ?thesis by simp
    next
      case (Inr rr)
      from executeWorkWithParams_result[of env w b e wr "NONCE_COUNT + k * 1000000" "k + 1" rr]
        x Inr
      have f: "farmerId rr = wr_farmerId wr" "custodialWallet rr = wr_custodialWallet wr"
        "compensationCorrect rr" by simp_all
      show ?thesis
      proof (cases "status rr = success")
        case s: True
        with True x Inr "1.prems" have "r = rr\<lparr>status := recovered\<rparr>"
          by (simp add: recoveryLoop.simps[of env w b e wr k])
        with f s show ?thesis by (simp add: compensationCorrect_def)
      next
        case s: False
        with True x Inr "1.prems" have "fst (recoveryLoop env w1 b e wr (k + 1)) = Some r"
          by (simp add: recoveryLoop.simps[of env w b e wr k])
        with "1.IH"(2)[OF True refl x[symmetric] Inr s] show ?thesis by simp
      qed
    qed
  qed
qed

lemma batchLoop_results:
  "\<forall>r \<in> set results. compensationCorrect r \<Longrightarrow>
   map farmerId (fst (batchLoop env w b e wrs results)) =
     map farmerId results @ map wr_farmerId wrs \<and>
   map custodialWallet (fst (batchLoop env w b e wrs results)) =
     map custodialWallet results @ map wr_custodialWallet wrs \<and>
   (\<forall>r \<in> set (fst (batchLoop env w b e wrs results)). compensationCorrect r)"
proof (induction wrs arbitrary: w results)
  case Nil
  then show ?case by simp
next
  case (Cons wr wrs)
  obtain result w1 where x: "executeWorkForFarmer env w b e wr = (result, w1)"
    by (cases "executeWorkForFarmer env w b e wr")
  from executeWorkForFarmer_result[of env w b e wr] x
  have f: "farmerId result = wr_farmerId wr" "custodialWallet result = wr_custodialWallet wr"
    "compensationCorrect result" by simp_all
  let ?pushed = "results @ [result]"
  have p: "\<forall>r \<in> set ?pushed. compensationCorrect r" using Cons.prems f by simp
  have g: "\<not> (status result = failed \<and> \<not> compensationRequired result)"
    using f(3) by (auto simp: compensationCorrect_def)
  have "batchLoop env w b e (wr # wrs) results = batchLoop env w1 b e wrs ?pushed"
    using x g by (auto simp: Let_def)
  with Cons.IH[OF p, of w1] f show ?case by simp
qed

lemma executeWorkBatch_results:
  "map farmerId (workResults (fst (executeWorkBatch env w b e wrs))) = map wr_farmerId wrs \<and>
   map custodialWallet (workResults (fst (executeWorkBatch env w b e wrs)))
     = map wr_custodialWallet wrs \<and>
   (\<forall>r \<in> set (workResults (fst (executeWorkBatch env w b e wrs))). compensationCorrect r)"
  using batchLoop_results[of "[]" env w b e wrs]
  by (cases "batchLoop env w b e wrs []") (simp add: executeWorkBatch_def)

lemma toWorkRequests_fields:
  "map wr_farmerId (toWorkRequests n) = map pf_farmerId (plantedFarmers n) \<and>
   map wr_custodialWallet (toWorkRequests n) = map pf_custodialWallet (plantedFarmers n)"
  by (simp add: toWorkRequests_def comp_def)

lemma handleWorkError_results:
  "pendingWorkBlocks c b = Some n \<Longrightarrow>
   \<exists>report. handleWorkError c b msg t = [report] \<and>
     map farmerId (wc_workResults report) = map pf_farmerId (plantedFarmers n) \<and>
     map custodialWallet (wc_workResults report) = map pf_custodialWallet (plantedFarmers n) \<and>
     (\<forall>r \<in> set (wc_workResults report). compensationCorrect r)"
  by (simp add: handleWorkError_def Let_def comp_def compensationCorrect_def)

lemma handleWorkError_correct:
  "\<forall>report \<in> set (handleWorkError c b msg t). \<forall>r \<in> set (wc_workResults report). compensationCorrect r"
  by (auto simp: handleWorkError_def Let_def compensationCorrect_def split: option.splits)

lemma receive_report:
  assumes "plantedFarmers n \<noteq> []"
  shows "\<exists>report. fst (snd (receivePlantingNotification c env w t n)) = [report] \<and>
     map farmerId (wc_workResults report) = map pf_farmerId (plantedFarmers n) \<and>
     map custodialWallet (wc_workResults report) = map pf_custodialWallet (plantedFarmers n) \<and>
     (\<forall>r \<in> set (wc_workResults report). compensationCorrect r)"
proof (cases "batchFault env")
  case None
  obtain r w1 where x: "executeWorkBatch env w (pn_blockIndex n) (pn_entropy n) (toWorkRequests n) = (r, w1)"
    by (cases "executeWorkBatch env w (pn_blockIndex n) (pn_entropy n) (toWorkRequests n)")
  from assms None x have
    "fst (snd (receivePlantingNotification c env w t n)) = handleWorkCompletion (pn_blockIndex n) r"
    by (simp add: receivePlantingNotification_def scheduleWork_def Let_def)
  moreover from executeWorkBatch_results[of env w "pn_blockIndex n" "pn_entropy n" "toWorkRequests n"] x
  have "map farmerId (workResults r) = map pf_farmerId (plantedFarmers n)"
    "map custodialWallet (workResults r) = map pf_custodialWallet (plantedFarmers n)"
    "\<forall>x \<in> set (workResults r). compensationCorrect x"
    by (simp_all add: toWorkRequests_fields)
  ultimately show ?thesis by (simp add: handleWorkCompletion_def Let_def)
next
  case (Some msg)
  let ?c2 = "c\<lparr>pendingWorkBlocks := (pendingWorkBlocks c)(pn_blockIndex n \<mapsto> n),
                activeWorkPromises := insert (pn_blockIndex n) (activeWorkPromises c)\<rparr>"
  from assms Some have
    "fst (snd (receivePlantingNotification c env w t n)) =
       handleWorkError ?c2 (pn_blockIndex n) msg (batchFinished env)"
    by (simp add: receivePlantingNotification_def scheduleWork_def Let_def)
  moreover have "pendingWorkBlocks ?c2 (pn_blockIndex n) = Some n" by simp
  ultimately show ?thesis
    using handleWorkError_results[of ?c2 "pn_blockIndex n" n msg "batchFinished env"] by simp
qed

lemmas work_defs = executeWorkBatch_def executeWorkForFarmer_def executeWorkWithParams_def
  runMiner_def callSubmitWork_def readWorkStream_def minedResult_def countLeadingZeros_def
  calculateGap_def NONCE_COUNT_def MAX_RECOVERY_ATTEMPTS_def Let_def

lemma accept_all: "submitWork (\<lambda>a. Accepted h) =
   (\<lparr>sr_success = True, transactionHash = Some h, sr_error = None\<rparr>, [Attempt 1])"
  by (simp add: submitWork_def submitLoop_before)

lemma reject_all: "submitWork (\<lambda>a. SimulationError e) =
   (\<lparr>sr_success = False, transactionHash = None, sr_error = Some (''Simulation failed: '' @ e)\<rparr>, [Attempt 1])"
  by (simp add: submitWork_def submitLoop_before)

lemma receive_S4:
  "map (\<lambda>report. map (\<lambda>r. (farmerId r, status r, compensationRequired r)) (wc_workResults report))
     (fst (snd (receivePlantingNotification idleCoordinator acceptThenReject freshWorld
        1700000035000 notificationS4)))
   = [[(''F1'', success, False), (''F2'', failed, True)]]"
  by (simp add: receivePlantingNotification_def scheduleWork_def handleWorkCompletion_def
        toWorkRequests_def work_defs notificationS4_def farmerF1_def farmerF2_def
        acceptThenReject_def freshWorld_def idleCoordinator_def accept_all reject_all)

lemma receive_crash:
  "map (\<lambda>report. map (\<lambda>r. (farmerId r, status r, compensationRequired r)) (wc_workResults report))
     (fst (snd (receivePlantingNotification idleCoordinator batchCrashes freshWorld
        1700000035000 notificationS4)))
   = [[(''F1'', failed, True), (''F2'', failed, True)]]"
  by (simp add: receivePlantingNotification_def scheduleWork_def handleWorkError_def
        toWorkRequests_def work_defs notificationS4_def farmerF1_def farmerF2_def
        batchCrashes_def acceptThenReject_def freshWorld_def idleCoordinator_def)

subsection \<open>Compensation flag\<close>

text \<open>
  Claim C5: every work result the Pooler produces has \<open>compensationRequired\<close> true iff
  its status is \<open>failed\<close>: the result of a normal attempt, of a recovery attempt, of the
  recovery loop, every result of a batch, every result of the whole-batch error path, and
  every result of a report the Coordinator sends.
\<close>

theorem C5_compensation_iff_failed:
  "compensationCorrect (fst (executeWorkForFarmer env w b e wr)) \<and>
   (\<forall>r. fst (executeWorkWithParams env w b e wr c a) = Inr r \<longrightarrow> compensationCorrect r) \<and>
   (\<forall>r. fst (attemptRecovery env w b e wr) = Some r \<longrightarrow> compensationCorrect r) \<and>
   (\<forall>r \<in> set (workResults (fst (executeWorkBatch env w b e wrs))). compensationCorrect r) \<and>
   (\<forall>report \<in> set (handleWorkError co b msg t).
      \<forall>r \<in> set (wc_workResults report). compensationCorrect r) \<and>
   (\<forall>report \<in> set (fst (snd (receivePlantingNotification co env w t n))).
      \<forall>r \<in> set (wc_workResults report). compensationCorrect r)"
proof -
  have last: "\<forall>report \<in> set (fst (snd (receivePlantingNotification co env w t n))).
      \<forall>r \<in> set (wc_workResults report). compensationCorrect r"
  proof (cases "plantedFarmers n = []")
    case True
    then show ?thesis by (simp add: receivePlantingNotification_def)
  next
    case False
    from receive_report[OF False, of co env w t] show ?thesis by auto
  qed
  show ?thesis
    using executeWorkForFarmer_result[of env w b e wr]
      executeWorkWithParams_result[of env w b e wr c a]
      recoveryLoop_result[of env w b e wr 1]
      executeWorkBatch_results[of env w b e wrs]
      handleWorkError_correct[of co b msg t] last
    unfolding attemptRecovery_def by blast
qed

theorem C5_compensation_iff_failed_witness:
  "map (\<lambda>report. map (\<lambda>r. (status r, compensationRequired r, compensationCorrect r))
          (wc_workResults report))
     (fst (snd (receivePlantingNotification idleCoordinator acceptThenReject freshWorld
        1700000035000 notificationS4)))
   = [[(success, False, True), (failed, True, True)]] \<and>
   map (\<lambda>report. map (\<lambda>r. (status r, compensationRequired r, compensationCorrect r))
          (wc_workResults report))
     (fst (snd (receivePlantingNotification idleCoordinator batchCrashes freshWorld
        1700000035000 notificationS4)))
   = [[(failed, True, True), (failed, True, True)]]"
proof -
  let ?a = "fst (snd (receivePlantingNotification idleCoordinator acceptThenReject freshWorld
        1700000035000 notificationS4))"
  let ?b = "fst (snd (receivePlantingNotification idleCoordinator batchCrashes freshWorld
        1700000035000 notificationS4))"
  from C5_compensation_iff_failed[of acceptThenReject freshWorld 201 entropyS4 requestF1 0 0 "[]"
         idleCoordinator "[]" 1700000035000 notificationS4]
  have a: "\<forall>report \<in> set ?a. \<forall>r \<in> set (wc_workResults report). compensationCorrect r" by blast
  from C5_compensation_iff_failed[of batchCrashes freshWorld 201 entropyS4 requestF1 0 0 "[]"
         idleCoordinator "[]" 1700000035000 notificationS4]
  have b: "\<forall>report \<in> set ?b. \<forall>r \<in> set (wc_workResults report). compensationCorrect r" by blast
  have m: "map (\<lambda>report. map (\<lambda>r. (status r, compensationRequired r, compensationCorrect r))
              (wc_workResults report)) reports
           = map (\<lambda>report. map (\<lambda>r. (status r, compensationRequired r, True))
              (wc_workResults report)) reports"
    if "\<forall>report \<in> set reports. \<forall>r \<in> set (wc_workResults report). compensationCorrect r"
    for reports using that by simp
  have pa: "map (\<lambda>report. map (\<lambda>r. (status r, compensationRequired r, True))
              (wc_workResults report)) ?a = [[(success, False, True), (failed, True, True)]]"
    using receive_S4 by (auto simp: map_eq_Cons_conv)
  have pb: "map (\<lambda>report. map (\<lambda>r. (status r, compensationRequired r, True))
              (wc_workResults report)) ?b = [[(failed, True, True), (failed, True, True)]]"
    using receive_crash by (auto simp: map_eq_Cons_conv)
  show ?thesis using m[OF a] m[OF b] pa pb by simp
qed

subsection \<open>Order of the results\<close>

text \<open>
  Claim C8: for every planting notification with a non-empty list of planted farmers, the
  Coordinator sends exactly one completion report, and its work results are one per
  planted farmer, in the order of the list: the farmer ids and the custodial wallets of
  the results are those of the planted farmers, position by position. This holds when the
  batch completes and when it ends in the error path.
\<close>

theorem C8_results_follow_planted_farmers:
  assumes "plantedFarmers n \<noteq> []"
  shows "\<exists>report. fst (snd (receivePlantingNotification c env w t n)) = [report] \<and>
     length (wc_workResults report) = length (plantedFarmers n) \<and>
     map farmerId (wc_workResults report) = map pf_farmerId (plantedFarmers n) \<and>
     map custodialWallet (wc_workResults report) = map pf_custodialWallet (plantedFarmers n)"
proof -
  from receive_report[OF assms, of c env w t] obtain report where
    r: "fst (snd (receivePlantingNotification c env w t n)) = [report]"
    "map farmerId (wc_workResults report) = map pf_farmerId (plantedFarmers n)"
    "map custodialWallet (wc_workResults report) = map pf_custodialWallet (plantedFarmers n)"
    by blast
  from r(2) have "length (wc_workResults report) = length (plantedFarmers n)"
    using map_eq_imp_length_eq by blast
  with r show ?thesis by blast
qed

theorem C8_results_follow_planted_farmers_witness:
  "plantedFarmers notificationS4 \<noteq> [] \<and>
   map pf_farmerId (plantedFarmers notificationS4) = [''F1'', ''F2''] \<and>
   (\<exists>report. fst (snd (receivePlantingNotification idleCoordinator acceptThenReject freshWorld
        1700000035000 notificationS4)) = [report] \<and>
      length (wc_workResults report) = 2 \<and>
      map farmerId (wc_workResults report) = [''F1'', ''F2'']) \<and>
   (\<exists>report. fst (snd (receivePlantingNotification idleCoordinator batchCrashes freshWorld
        1700000035000 notificationS4)) = [report] \<and>
      length (wc_workResults report) = 2 \<and>
      map farmerId (wc_workResults report) = [''F1'', ''F2''])"
proof -
  have n: "plantedFarmers notificationS4 \<noteq> []" by (simp add: notificationS4_def)
  have f: "map pf_farmerId (plantedFarmers notificationS4) = [''F1'', ''F2'']"
    "length (plantedFarmers notificationS4) = 2"
    by (simp_all add: notificationS4_def farmerF1_def farmerF2_def)
  from C8_results_follow_planted_farmers[OF n, of idleCoordinator acceptThenReject freshWorld
         1700000035000]
       C8_results_follow_planted_farmers[OF n, of idleCoordinator batchCrashes freshWorld
         1700000035000] n f
  show ?thesis by auto
qed

subsection \<open>Work start time\<close>

text \<open>
  Claim C10: for every call of \<open>scheduleWork\<close> with a numeric block timestamp, the target
  time is \<open>blockTimestampToMs\<close> of the timestamp plus 150000 ms and the wait is the
  maximum of 0 and target minus now; the timestamp is multiplied by 1000 when it is at
  most 10000000000 and used unchanged when it is greater.
\<close>

theorem C10_work_start_target:
  "targetTimeMs (workSchedule currentTimeMs (Number ts)) = blockTimestampToMs (Number ts) + 150000 \<and>
   waitTimeMs (workSchedule currentTimeMs (Number ts)) =
     max 0 (targetTimeMs (workSchedule currentTimeMs (Number ts)) - currentTimeMs) \<and>
   (ts \<le> 10000000000 \<longrightarrow> blockTimestampToMs (Number ts) = ts * 1000) \<and>
   (ts > 10000000000 \<longrightarrow> blockTimestampToMs (Number ts) = ts) \<and>
   fst (scheduleWork env w currentTimeMs (Number ts) b e wrs) = workSchedule currentTimeMs (Number ts)"
  by (simp add: workSchedule_def blockTimestampToMs_def WORK_DELAY_SECONDS_def scheduleWork_def
        Let_def split: option.splits prod.splits)

theorem C10_work_start_target_witness:
  "(1700000000::int) \<le> 10000000000 \<and> (1700000000000::int) > 10000000000 \<and>
   blockTimestampToMs (Number 1700000000) = 1700000000000 \<and>
   targetTimeMs (workSchedule 1700000035000 (Number 1700000000)) = 1700000150000 \<and>
   waitTimeMs (workSchedule 1700000035000 (Number 1700000000)) = 115000 \<and>
   blockTimestampToMs (Number 1700000000000) = 1700000000000 \<and>
   targetTimeMs (workSchedule 1700000035000 (Number 1700000000000)) = 1700000150000 \<and>
   waitTimeMs (workSchedule 1700000200000 (Number 1700000000000)) = 0"
  using C10_work_start_target[of 1700000035000 1700000000 acceptThenReject freshWorld 201 entropyS4 "[]"]
    C10_work_start_target[of 1700000035000 1700000000000 acceptThenReject freshWorld 201 entropyS4 "[]"]
    C10_work_start_target[of 1700000200000 1700000000000 acceptThenReject freshWorld 201 entropyS4 "[]"]
  by simp

subsection \<open>Recovery after a run of the miner without output\<close>

text \<open>The first attempt of every farmer returns either a success or a failure that asks
  for compensation, so the guard of the recovery in \<open>executeWorkBatch\<close> (a failed result
  that does not ask for compensation) never holds: the batch runs the miner exactly once
  per farmer and no result is \<open>recovered\<close>.\<close>

lemma recovery_guard_never_holds:
  "\<not> (status (fst (executeWorkForFarmer env w b e wr)) = failed \<and>
      \<not> compensationRequired (fst (executeWorkForFarmer env w b e wr)))"
  using executeWorkForFarmer_result[of env w b e wr] by (auto simp: compensationCorrect_def)

lemma executeWorkForFarmer_runs:
  "minerRuns (snd (executeWorkForFarmer env w b e wr)) = minerRuns w + 1"
  by (auto simp: executeWorkForFarmer_def runMiner_def callSubmitWork_def Let_def
      split: prod.splits miner_run.splits option.splits)

lemma batchLoop_runs:
  "minerRuns (snd (batchLoop env w b e wrs results)) = minerRuns w + length wrs \<and>
   (\<forall>r \<in> set (fst (batchLoop env w b e wrs results)).
      r \<in> set results \<or> status r \<noteq> recovered)"
proof (induction wrs arbitrary: w results)
  case Nil
  then show ?case by simp
next
  case (Cons wr wrs)
  obtain result w1 where x: "executeWorkForFarmer env w b e wr = (result, w1)"
    by (cases "executeWorkForFarmer env w b e wr")
  from recovery_guard_never_holds[of env w b e wr] x
  have g: "\<not> (status result = failed \<and> \<not> compensationRequired result)" by simp
  from executeWorkForFarmer_runs[of env w b e wr] x
  have r: "minerRuns w1 = minerRuns w + 1" by simp
  from executeWorkForFarmer_result[of env w b e wr] x
  have n: "status result \<noteq> recovered" by simp
  have "batchLoop env w b e (wr # wrs) results = batchLoop env w1 b e wrs (results @ [result])"
    using x g by (auto simp: Let_def)
  with Cons.IH[of w1 "results @ [result]"] r n show ?case by auto
qed

lemma batch_one_run_per_farmer:
  "minerRuns (snd (executeWorkBatch env w b e wrs)) = minerRuns w + length wrs \<and>
   (\<forall>r \<in> set (workResults (fst (executeWorkBatch env w b e wrs))). status r \<noteq> recovered)"
  using batchLoop_runs[of env w b e wrs "[]"]
  by (cases "batchLoop env w b e wrs []") (simp add: executeWorkBatch_def)

lemma batch_S6:
  "executeWorkBatch timeoutThenMine freshWorld 201 entropyS4 [requestF1] =
   (\<lparr>br_blockIndex = 201,
     workResults = [\<lparr>farmerId = ''F1'', custodialWallet = ''GAF1KALE'', status = failed,
        nonce = None, hash = None, zeros = None, gap = None, wr_workTime = 300000,
        attempts = 1,
        error = Some ''Work process timed out or produced no output. stderr: '',
        compensationRequired = True\<rparr>],
     totalWorkTime = 310000, br_timestamp = 1700000460000\<rparr>,
    \<lparr>minerRuns = 1, submitCalls = 0,
      trace = [MinerRun \<lparr>farmerSecret = ''SAF1'', minerIndex = 201, minerEntropy = entropyS4,
                         nonceCount = 10000000\<rparr>]\<rparr>)"
  by (simp add: work_defs timeoutThenMine_def freshWorld_def requestF1_def)

lemma recovery_S6:
  "attemptRecovery timeoutThenMine
     (snd (executeWorkBatch timeoutThenMine freshWorld 201 entropyS4 [requestF1]))
     201 entropyS4 requestF1 =
   (Some \<lparr>farmerId = ''F1'', custodialWallet = ''GAF1KALE'', status = recovered,
        nonce = Some (Some 9999), hash = Some ''00005ef'', zeros = Some 4, gap = Some 15,
        wr_workTime = 10000, attempts = 2, error = None, compensationRequired = False\<rparr>,
    \<lparr>minerRuns = 2, submitCalls = 1,
      trace = [MinerRun \<lparr>farmerSecret = ''SAF1'', minerIndex = 201, minerEntropy = entropyS4,
                         nonceCount = 10000000\<rparr>,
               MinerRun \<lparr>farmerSecret = ''SAF1'', minerIndex = 201, minerEntropy = entropyS4,
                         nonceCount = 11000000\<rparr>,
               SubmitCall ''GAF1KALE'' [Attempt 1]]\<rparr>)"
  unfolding batch_S6 attemptRecovery_def
  by (subst recoveryLoop.simps)
     (simp add: work_defs timeoutThenMine_def requestF1_def accept_all)

lemma recovery_exhausted:
  "attemptRecovery neverMines freshWorld 201 entropyS4 requestF1 =
   (None,
    \<lparr>minerRuns = 3, submitCalls = 0,
      trace = [MinerRun \<lparr>farmerSecret = ''SAF1'', minerIndex = 201, minerEntropy = entropyS4,
                         nonceCount = 11000000\<rparr>,
               MinerRun \<lparr>farmerSecret = ''SAF1'', minerIndex = 201, minerEntropy = entropyS4,
                         nonceCount = 12000000\<rparr>,
               MinerRun \<lparr>farmerSecret = ''SAF1'', minerIndex = 201, minerEntropy = entropyS4,
                         nonceCount = 13000000\<rparr>]\<rparr>)"
  unfolding attemptRecovery_def
  apply (subst recoveryLoop.simps)
  apply (simp add: work_defs neverMines_def timeoutThenMine_def requestF1_def freshWorld_def)
  apply (subst recoveryLoop.simps)
  apply (simp add: work_defs neverMines_def timeoutThenMine_def requestF1_def freshWorld_def)
  apply (subst recoveryLoop.simps)
  apply (simp add: work_defs neverMines_def timeoutThenMine_def requestF1_def freshWorld_def)
  apply (subst recoveryLoop.simps)
  apply (simp add: work_defs neverMines_def timeoutThenMine_def requestF1_def freshWorld_def)
  done

text \<open>
  Claim C2, at the input of scenario S6 (one farmer; the first run of the miner gives no
  output, every later run prints \<open>[9999, "00005ef"]\<close>, and the relay accepts): the claim
  asks for a recovery attempt with nonce count 11000000 and a result \<open>recovered\<close>. The
  batch of the code ends with the single result \<open>failed\<close>, \<open>compensationRequired = true\<close>,
  \<open>attempts = 1\<close>, after one run of the miner; \<open>attemptRecovery\<close>, called on the state the
  batch leaves, returns a \<open>recovered\<close> result.
\<close>

theorem C2_recovery_not_entered_after_timeout:
  "map status (workResults (fst (executeWorkBatch timeoutThenMine freshWorld 201 entropyS4
      [requestF1]))) = [failed] \<and>
   map compensationRequired (workResults (fst (executeWorkBatch timeoutThenMine freshWorld 201
      entropyS4 [requestF1]))) = [True] \<and>
   map attempts (workResults (fst (executeWorkBatch timeoutThenMine freshWorld 201 entropyS4
      [requestF1]))) = [1] \<and>
   minerRuns (snd (executeWorkBatch timeoutThenMine freshWorld 201 entropyS4 [requestF1])) = 1 \<and>
   map_option status (fst (attemptRecovery timeoutThenMine
      (snd (executeWorkBatch timeoutThenMine freshWorld 201 entropyS4 [requestF1]))
      201 entropyS4 requestF1)) = Some recovered"
  by (simp add: recovery_S6) (simp add: batch_S6)

end
